theory Spec2Isabelle
  imports Complex_Main "HOL-Library.Char_ord" "HOL-Library.List_Lexorder"
begin

section \<open>Python values and the fingerprint\<close>

text \<open>
  The reconcilers are Python scripts over a PostgreSQL database. Strings are byte strings
  (\<open>s.encode("utf-8")\<close> is the identity on them). A calendar date is its year, month and
  day; \<open>open_ended\<close> is the SQL literal \<^verbatim>\<open>date '9999-12-31'\<close>.
\<close>

datatype date = Date nat nat nat

definition open_ended :: date where
  "open_ended = Date 9999 12 31"

text \<open>
  The values that reach \<open>md5_hash\<close>: \<open>None\<close>, a string, a boolean, a float and a date.
  Rounding of floats is not modelled: a finite number is the rational it denotes.
\<close>

datatype pyval = PNone | PStr string | PBool bool | PFloat rat | PDate date

text \<open>
  What the scripts take from the Python runtime and do not define themselves:
  \<open>hashlib.md5(...).hexdigest()\<close>, \<open>str\<close> on a float, and the order in which a
  \<open>set\<close> of strings is iterated.
\<close>

record runtime =
  md5_hexdigest :: "string \<Rightarrow> string"
  float_str :: "rat \<Rightarrow> string"
  set_iter :: "string set \<Rightarrow> string list"

definition digit :: "nat \<Rightarrow> char" where
  "digit n = ''0123456789'' ! (n mod 10)"

fun zero_padded :: "nat \<Rightarrow> nat \<Rightarrow> string" where
  "zero_padded 0 n = []"
| "zero_padded (Suc w) n = zero_padded w (n div 10) @ [digit n]"

fun isoformat :: "date \<Rightarrow> string" where
  "isoformat (Date y m d) =
     zero_padded 4 y @ ''-'' @ zero_padded 2 m @ ''-'' @ zero_padded 2 d"

fun py_str :: "runtime \<Rightarrow> pyval \<Rightarrow> string" where
  "py_str R PNone = ''None''"
| "py_str R (PStr s) = s"
| "py_str R (PBool b) = (if b then ''True'' else ''False'')"
| "py_str R (PFloat x) = float_str R x"
| "py_str R (PDate d) = isoformat d"

fun join :: "string \<Rightarrow> string list \<Rightarrow> string" where
  "join sep [] = []"
| "join sep [x] = x"
| "join sep (x # y # ys) = x @ sep @ join sep (y # ys)"

text \<open>
  \<^verbatim>\<open>def md5_hash(values): s = "||".join("" if v is None else str(v) for v in values)\<close>
  then the MD5 hex digest of \<open>s\<close>. The function is the same in the four scripts.
\<close>

definition canonical :: "runtime \<Rightarrow> pyval \<Rightarrow> string" where
  "canonical R v = (if v = PNone then [] else py_str R v)"

definition md5_hash :: "runtime \<Rightarrow> pyval list \<Rightarrow> string" where
  "md5_hash R values =
     (let s = join ''||'' (map (canonical R) values) in md5_hexdigest R s)"

text \<open>Nullable columns as they arrive in Python, and \<open>str\<close> on a nullable text.\<close>

definition of_text :: "string option \<Rightarrow> pyval" where
  "of_text x = (case x of None \<Rightarrow> PNone | Some s \<Rightarrow> PStr s)"

definition of_float :: "rat option \<Rightarrow> pyval" where
  "of_float x = (case x of None \<Rightarrow> PNone | Some r \<Rightarrow> PFloat r)"

definition of_date :: "date option \<Rightarrow> pyval" where
  "of_date x = (case x of None \<Rightarrow> PNone | Some d \<Rightarrow> PDate d)"

definition str_text :: "string option \<Rightarrow> string" where
  "str_text x = (case x of None \<Rightarrow> ''None'' | Some s \<Rightarrow> s)"

section \<open>The database\<close>

text \<open>
  The table declarations are not part of the sources. Columns are typed as the scripts use
  them: the natural key of a history table is a string (spec, section 3), business
  attributes are nullable texts, numbers and dates. A table is the list of its rows, a
  new row is appended. Field names carry the table's initials (\<open>br\<close>, \<open>sh\<close>, \<open>ph\<close>,
  \<open>dh\<close>), since record fields share one name space.
\<close>

record batch_run_row =
  br_batch_id :: int
  br_dataset :: string
  br_as_of_date :: date
  br_status :: string

record salarie_histo_row =
  sh_ref_salarie :: string
  sh_nni :: "string option"
  sh_nom :: "string option"
  sh_prenom :: "string option"
  sh_valid_from :: date
  sh_valid_to :: date
  sh_is_current :: bool
  sh_is_deleted :: bool
  sh_record_hash :: string
  sh_batch_id :: int

record paiement_histo_row =
  ph_ref_paiement :: string
  ph_ref_salarie :: "string option"
  ph_montant_paye :: "rat option"
  ph_rib_salarie :: "string option"
  ph_date_paiement :: "date option"
  ph_ref_demande_avance :: "string option"
  ph_valid_from :: date
  ph_valid_to :: date
  ph_is_current :: bool
  ph_is_deleted :: bool
  ph_record_hash :: string
  ph_batch_id :: int

record demande_avance_histo_row =
  dh_ref_demande_avance :: string
  dh_ref_salarie :: "string option"
  dh_montant_demande :: "rat option"
  dh_montant_paye :: "rat option"
  dh_date_paiement :: "date option"
  dh_ref_paiement :: "string option"
  dh_valid_from :: date
  dh_valid_to :: date
  dh_is_current :: bool
  dh_is_deleted :: bool
  dh_record_hash :: string
  dh_batch_id :: int

type_synonym silver_salarie_row =
  "string option \<times> string option \<times> string option \<times> string option"

type_synonym silver_paiement_row =
  "string option \<times> string option \<times> rat option \<times> string option \<times> date option \<times> string option"

type_synonym silver_demande_avance_row =
  "string option \<times> string option \<times> rat option"

record database =
  batch_run :: "batch_run_row list"
  silver_salarie :: "silver_salarie_row list"
  silver_paiement :: "silver_paiement_row list"
  silver_demande_avance :: "silver_demande_avance_row list"
  salarie_histo :: "salarie_histo_row list"
  paiement_histo :: "paiement_histo_row list"
  demande_avance_histo :: "demande_avance_histo_row list"

text \<open>
  The two write statements of each script: the \<^verbatim>\<open>update ... set valid_to, is_current = false
  where key = %s and is_current = true\<close> of \<open>close_current\<close> and the \<^verbatim>\<open>insert\<close> of
  \<open>insert_version\<close>.
\<close>

datatype stmt =
    CloseSalarie string date
  | InsertSalarie salarie_histo_row
  | ClosePaiement string date
  | InsertPaiement paiement_histo_row
  | CloseDemande string date
  | InsertDemande demande_avance_histo_row

definition update_salarie :: "string \<Rightarrow> date \<Rightarrow> salarie_histo_row \<Rightarrow> salarie_histo_row" where
  "update_salarie ref as_of r =
     (if sh_ref_salarie r = ref \<and> sh_is_current r
      then r\<lparr>sh_valid_to := as_of, sh_is_current := False\<rparr> else r)"

definition update_paiement :: "string \<Rightarrow> date \<Rightarrow> paiement_histo_row \<Rightarrow> paiement_histo_row" where
  "update_paiement ref as_of r =
     (if ph_ref_paiement r = ref \<and> ph_is_current r
      then r\<lparr>ph_valid_to := as_of, ph_is_current := False\<rparr> else r)"

definition update_demande ::
  "string \<Rightarrow> date \<Rightarrow> demande_avance_histo_row \<Rightarrow> demande_avance_histo_row" where
  "update_demande ref as_of r =
     (if dh_ref_demande_avance r = ref \<and> dh_is_current r
      then r\<lparr>dh_valid_to := as_of, dh_is_current := False\<rparr> else r)"

fun apply_stmt :: "stmt \<Rightarrow> database \<Rightarrow> database" where
  "apply_stmt (CloseSalarie ref as_of) db =
     db\<lparr>salarie_histo := map (update_salarie ref as_of) (salarie_histo db)\<rparr>"
| "apply_stmt (InsertSalarie r) db = db\<lparr>salarie_histo := salarie_histo db @ [r]\<rparr>"
| "apply_stmt (ClosePaiement ref as_of) db =
     db\<lparr>paiement_histo := map (update_paiement ref as_of) (paiement_histo db)\<rparr>"
| "apply_stmt (InsertPaiement r) db = db\<lparr>paiement_histo := paiement_histo db @ [r]\<rparr>"
| "apply_stmt (CloseDemande ref as_of) db =
     db\<lparr>demande_avance_histo := map (update_demande ref as_of) (demande_avance_histo db)\<rparr>"
| "apply_stmt (InsertDemande r) db =
     db\<lparr>demande_avance_histo := demande_avance_histo db @ [r]\<rparr>"

text \<open>
  The number of rows an \<^verbatim>\<open>update\<close> of \<open>close_current\<close> matches (\<open>cur.rowcount\<close>).
\<close>

definition rowcount_salarie :: "string \<Rightarrow> salarie_histo_row list \<Rightarrow> nat" where
  "rowcount_salarie ref rows =
     length (filter (\<lambda>r. sh_ref_salarie r = ref \<and> sh_is_current r) rows)"

section \<open>Connections, transactions and exceptions\<close>

text \<open>
  A connection with \<open>autocommit = False\<close>: statements read and write the state of the
  open transaction (\<open>session\<close>); \<open>commit\<close> makes it the durable state (\<open>committed\<close>),
  \<open>rollback\<close> discards it. Any statement may raise a storage error: \<open>plan\<close> says, for
  each statement that is still to come, whether the database refuses it; the empty plan
  refuses nothing. \<open>executed\<close> logs the write statements the database accepted.
\<close>

datatype error = RuntimeError | TypeError | KeyError | OperationalError

record conn =
  committed :: database
  session :: database
  plan :: "bool list"
  executed :: "stmt list"

text \<open>
  \<open>get_conn\<close> of \<^verbatim>\<open>common.py\<close>, with the environment variables set: a fresh connection
  to the database, nothing executed yet. The \<^verbatim>\<open>finally: conn.close()\<close> of \<open>main\<close> has no
  effect on the database and is left out.
\<close>

definition get_conn :: "database \<Rightarrow> bool list \<Rightarrow> conn" where
  "get_conn db p = \<lparr>committed = db, session = db, plan = p, executed = []\<rparr>"

type_synonym 'a io = "conn \<Rightarrow> (error + 'a) \<times> conn"

definition return :: "'a \<Rightarrow> 'a io" where
  "return a c = (Inr a, c)"

definition raise :: "error \<Rightarrow> 'a io" where
  "raise e c = (Inl e, c)"

definition bind :: "'a io \<Rightarrow> ('a \<Rightarrow> 'b io) \<Rightarrow> 'b io" where
  "bind m f c = (case m c of (Inl e, c') \<Rightarrow> (Inl e, c') | (Inr a, c') \<Rightarrow> f a c')"

fun for_each :: "'a list \<Rightarrow> ('a \<Rightarrow> unit io) \<Rightarrow> unit io" where
  "for_each [] body = return ()"
| "for_each (x # xs) body = bind (body x) (\<lambda>_. for_each xs body)"

definition execute :: "unit io" where
  "execute c =
     (case plan c of
        [] \<Rightarrow> (Inr (), c)
      | refused # p \<Rightarrow>
          (if refused then Inl OperationalError else Inr (), c\<lparr>plan := p\<rparr>))"

definition execute_write :: "stmt \<Rightarrow> unit io" where
  "execute_write s =
     bind execute (\<lambda>_ c.
       (Inr (), c\<lparr>session := apply_stmt s (session c), executed := executed c @ [s]\<rparr>))"

definition commit :: "unit io" where
  "commit = bind execute (\<lambda>_ c. (Inr (), c\<lparr>committed := session c\<rparr>))"

definition rollback :: "conn \<Rightarrow> conn" where
  "rollback c = c\<lparr>session := committed c\<rparr>"

text \<open>\<^verbatim>\<open>try: body except Exception: conn.rollback(); raise\<close>\<close>

definition try_rollback :: "'a io \<Rightarrow> 'a io" where
  "try_rollback body c =
     (case body c of (Inl e, c') \<Rightarrow> (Inl e, rollback c') | (Inr a, c') \<Rightarrow> (Inr a, c'))"

text \<open>
  \<open>get_latest_batch_id\<close>: the greatest \<open>batch_id\<close> among the \<open>SUCCESS\<close> rows of
  \<open>etl.batch_run\<close> for the dataset and the date, \<open>RuntimeError\<close> when there is none.
  The script passes the text of \<open>--as-of\<close> here and the parsed date elsewhere; the
  model takes the date both times.
\<close>

definition success_batches :: "string \<Rightarrow> date \<Rightarrow> batch_run_row list \<Rightarrow> int list" where
  "success_batches dataset as_of rows =
     rev (sort (map br_batch_id
       (filter (\<lambda>b. br_dataset b = dataset \<and> br_as_of_date b = as_of \<and>
                     br_status b = ''SUCCESS'') rows)))"

definition get_latest_batch_id :: "string \<Rightarrow> date \<Rightarrow> int io" where
  "get_latest_batch_id dataset as_of =
     bind execute (\<lambda>_ c.
       (case success_batches dataset as_of (batch_run (session c)) of
          [] \<Rightarrow> (Inl RuntimeError, c)
        | row # _ \<Rightarrow> (Inr row, c)))"

section \<open>The salarie reconciler\<close>

text \<open>The Python dictionaries of \<^verbatim>\<open>gold/apply_gold_salarie.py\<close>.\<close>

record salarie_row =
  sr_ref_salarie :: string
  sr_nni :: "string option"
  sr_nom :: "string option"
  sr_prenom :: "string option"

record salarie_current =
  sc_nni :: "string option"
  sc_nom :: "string option"
  sc_prenom :: "string option"
  sc_record_hash :: string
  sc_is_deleted :: bool

definition silver_salarie_dict :: "silver_salarie_row list \<Rightarrow> (string \<rightharpoonup> salarie_row)" where
  "silver_salarie_dict rows =
     fold (\<lambda>(ref_salarie, nni, nom, prenom) out.
             out(str_text ref_salarie \<mapsto>
               \<lparr>sr_ref_salarie = str_text ref_salarie, sr_nni = Some (str_text nni),
                sr_nom = Some (str_text nom), sr_prenom = Some (str_text prenom)\<rparr>))
          rows Map.empty"

definition fetch_silver_salarie :: "(string \<rightharpoonup> salarie_row) io" where
  "fetch_silver_salarie =
     bind execute (\<lambda>_ c. (Inr (silver_salarie_dict (silver_salarie (session c))), c))"

definition gold_salarie_dict :: "salarie_histo_row list \<Rightarrow> (string \<rightharpoonup> salarie_current)" where
  "gold_salarie_dict rows =
     fold (\<lambda>r out.
             out(sh_ref_salarie r \<mapsto>
               \<lparr>sc_nni = sh_nni r, sc_nom = sh_nom r, sc_prenom = sh_prenom r,
                sc_record_hash = sh_record_hash r, sc_is_deleted = sh_is_deleted r\<rparr>))
          (filter sh_is_current rows) Map.empty"

definition fetch_gold_current :: "(string \<rightharpoonup> salarie_current) io" where
  "fetch_gold_current =
     bind execute (\<lambda>_ c. (Inr (gold_salarie_dict (salarie_histo (session c))), c))"

definition close_current :: "string \<Rightarrow> date \<Rightarrow> unit io" where
  "close_current ref_salarie as_of_date = execute_write (CloseSalarie ref_salarie as_of_date)"

definition salarie_version ::
  "runtime \<Rightarrow> salarie_row \<Rightarrow> date \<Rightarrow> int \<Rightarrow> bool \<Rightarrow> salarie_histo_row" where
  "salarie_version R row as_of_date batch_id is_deleted =
     (let record_hash =
        md5_hash R [of_text (sr_nni row), of_text (sr_nom row), of_text (sr_prenom row),
                    PBool is_deleted]
      in \<lparr>sh_ref_salarie = sr_ref_salarie row, sh_nni = sr_nni row, sh_nom = sr_nom row,
          sh_prenom = sr_prenom row, sh_valid_from = as_of_date, sh_valid_to = open_ended,
          sh_is_current = True, sh_is_deleted = is_deleted, sh_record_hash = record_hash,
          sh_batch_id = batch_id\<rparr>)"

definition insert_version :: "runtime \<Rightarrow> salarie_row \<Rightarrow> date \<Rightarrow> int \<Rightarrow> bool \<Rightarrow> unit io" where
  "insert_version R row as_of_date batch_id is_deleted =
     execute_write (InsertSalarie (salarie_version R row as_of_date batch_id is_deleted))"

text \<open>The body of the first loop of \<open>main\<close> (inserts and updates), for one key.\<close>

definition upsert_salarie ::
  "runtime \<Rightarrow> (string \<rightharpoonup> salarie_row) \<Rightarrow> (string \<rightharpoonup> salarie_current) \<Rightarrow> date \<Rightarrow> int \<Rightarrow>
   string \<Rightarrow> unit io" where
  "upsert_salarie R silver gold_current as_of_date batch_id ref =
     (case silver ref of
        None \<Rightarrow> raise KeyError
      | Some row \<Rightarrow>
          (let new_hash =
             md5_hash R [of_text (sr_nni row), of_text (sr_nom row), of_text (sr_prenom row),
                         PBool False]
           in case gold_current ref of
                None \<Rightarrow> insert_version R row as_of_date batch_id False
              | Some cur \<Rightarrow>
                  if sc_record_hash cur \<noteq> new_hash \<or> sc_is_deleted cur = True
                  then bind (close_current ref as_of_date)
                         (\<lambda>_. insert_version R row as_of_date batch_id False)
                  else return ()))"

text \<open>The body of the second loop of \<open>main\<close> (logical deletions), for one key.\<close>

definition tombstone_salarie ::
  "runtime \<Rightarrow> (string \<rightharpoonup> salarie_current) \<Rightarrow> date \<Rightarrow> int \<Rightarrow> string \<Rightarrow> unit io" where
  "tombstone_salarie R gold_current as_of_date batch_id ref =
     (case gold_current ref of
        None \<Rightarrow> raise KeyError
      | Some cur \<Rightarrow>
          if sc_is_deleted cur = False
          then bind (close_current ref as_of_date)
                 (\<lambda>_. let tomb = \<lparr>sr_ref_salarie = ref, sr_nni = sc_nni cur,
                                   sr_nom = sc_nom cur, sr_prenom = sc_prenom cur\<rparr>
                      in insert_version R tomb as_of_date batch_id True)
          else return ())"

text \<open>
  \<open>main\<close>, from \<open>conn = get_conn()\<close> on: the connection is the argument. The dataset
  is \<open>--batch-dataset\<close>, the date is \<open>--as-of\<close>. \<open>salarie_run\<close> is the \<^verbatim>\<open>try\<close> block
  up to \<open>conn.commit()\<close>.
\<close>

definition salarie_run :: "runtime \<Rightarrow> string \<Rightarrow> date \<Rightarrow> unit io" where
  "salarie_run R batch_dataset as_of_date =
     bind (get_latest_batch_id batch_dataset as_of_date) (\<lambda>batch_id.
     bind fetch_silver_salarie (\<lambda>silver.
     bind fetch_gold_current (\<lambda>gold_current.
       let silver_keys = dom silver; gold_keys = dom gold_current in
       bind (for_each (set_iter R silver_keys)
               (upsert_salarie R silver gold_current as_of_date batch_id)) (\<lambda>_.
       let deleted_refs = gold_keys - silver_keys in
       for_each (set_iter R deleted_refs)
         (tombstone_salarie R gold_current as_of_date batch_id)))))"

definition main_salarie :: "runtime \<Rightarrow> string \<Rightarrow> date \<Rightarrow> unit io" where
  "main_salarie R batch_dataset as_of_date =
     try_rollback (bind (salarie_run R batch_dataset as_of_date) (\<lambda>_. commit))"

section \<open>The paiement reconciler\<close>

text \<open>
  \<^verbatim>\<open>gold/apply_gold_paiement.py\<close>. \<open>float(x)\<close> raises \<open>TypeError\<close> on \<open>None\<close>; on a
  number it is the number (rounding is not modelled).
\<close>

definition py_float :: "rat option \<Rightarrow> rat io" where
  "py_float x = (case x of None \<Rightarrow> raise TypeError | Some r \<Rightarrow> return r)"

record paiement_row =
  pr_ref_paiement :: string
  pr_ref_salarie :: string
  pr_montant_paye :: "rat option"
  pr_rib_salarie :: string
  pr_date_paiement :: "date option"
  pr_ref_demande_avance :: string

record paiement_current =
  pc_ref_salarie :: "string option"
  pc_montant_paye :: "rat option"
  pc_rib_salarie :: "string option"
  pc_date_paiement :: "date option"
  pc_ref_demande_avance :: "string option"
  pc_record_hash :: string
  pc_is_deleted :: bool

definition silver_paiement_dict :: "silver_paiement_row list \<Rightarrow> (string \<rightharpoonup> paiement_row)" where
  "silver_paiement_dict rows =
     fold (\<lambda>(ref_paiement, ref_salarie, montant_paye, rib_salarie, date_paiement,
               ref_demande_avance) out.
             out(str_text ref_paiement \<mapsto>
               \<lparr>pr_ref_paiement = str_text ref_paiement,
                pr_ref_salarie = str_text ref_salarie,
                pr_montant_paye = (case montant_paye of None \<Rightarrow> None | Some x \<Rightarrow> Some x),
                pr_rib_salarie = str_text rib_salarie,
                pr_date_paiement = date_paiement,
                pr_ref_demande_avance = str_text ref_demande_avance\<rparr>))
          rows Map.empty"

definition fetch_silver_paiement :: "(string \<rightharpoonup> paiement_row) io" where
  "fetch_silver_paiement =
     bind execute (\<lambda>_ c. (Inr (silver_paiement_dict (silver_paiement (session c))), c))"

definition gold_paiement_dict :: "paiement_histo_row list \<Rightarrow> (string \<rightharpoonup> paiement_current)" where
  "gold_paiement_dict rows =
     fold (\<lambda>r out.
             out(ph_ref_paiement r \<mapsto>
               \<lparr>pc_ref_salarie = ph_ref_salarie r, pc_montant_paye = ph_montant_paye r,
                pc_rib_salarie = ph_rib_salarie r, pc_date_paiement = ph_date_paiement r,
                pc_ref_demande_avance = ph_ref_demande_avance r,
                pc_record_hash = ph_record_hash r, pc_is_deleted = ph_is_deleted r\<rparr>))
          (filter ph_is_current rows) Map.empty"

definition fetch_gold_current_paiement :: "(string \<rightharpoonup> paiement_current) io" where
  "fetch_gold_current_paiement =
     bind execute (\<lambda>_ c. (Inr (gold_paiement_dict (paiement_histo (session c))), c))"

definition close_current_paiement :: "string \<Rightarrow> date \<Rightarrow> unit io" where
  "close_current_paiement ref_paiement as_of_date =
     execute_write (ClosePaiement ref_paiement as_of_date)"

definition paiement_hash :: "runtime \<Rightarrow> paiement_row \<Rightarrow> bool \<Rightarrow> string" where
  "paiement_hash R row is_deleted =
     md5_hash R [PStr (pr_ref_salarie row), of_float (pr_montant_paye row),
                 PStr (pr_rib_salarie row), of_date (pr_date_paiement row),
                 PStr (pr_ref_demande_avance row), PBool is_deleted]"

definition insert_version_paiement ::
  "runtime \<Rightarrow> paiement_row \<Rightarrow> date \<Rightarrow> int \<Rightarrow> bool \<Rightarrow> unit io" where
  "insert_version_paiement R row as_of_date batch_id is_deleted =
     (let record_hash = paiement_hash R row is_deleted
      in execute_write (InsertPaiement
           \<lparr>ph_ref_paiement = pr_ref_paiement row, ph_ref_salarie = Some (pr_ref_salarie row),
            ph_montant_paye = pr_montant_paye row, ph_rib_salarie = Some (pr_rib_salarie row),
            ph_date_paiement = pr_date_paiement row,
            ph_ref_demande_avance = Some (pr_ref_demande_avance row),
            ph_valid_from = as_of_date, ph_valid_to = open_ended, ph_is_current = True,
            ph_is_deleted = is_deleted, ph_record_hash = record_hash,
            ph_batch_id = batch_id\<rparr>))"

definition upsert_paiement ::
  "runtime \<Rightarrow> (string \<rightharpoonup> paiement_row) \<Rightarrow> (string \<rightharpoonup> paiement_current) \<Rightarrow> date \<Rightarrow> int \<Rightarrow>
   string \<Rightarrow> unit io" where
  "upsert_paiement R silver gold_current as_of_date batch_id ref =
     (case silver ref of
        None \<Rightarrow> raise KeyError
      | Some row \<Rightarrow>
          (let new_hash = paiement_hash R row False
           in case gold_current ref of
                None \<Rightarrow> insert_version_paiement R row as_of_date batch_id False
              | Some cur \<Rightarrow>
                  if pc_record_hash cur \<noteq> new_hash \<or> pc_is_deleted cur = True
                  then bind (close_current_paiement ref as_of_date)
                         (\<lambda>_. insert_version_paiement R row as_of_date batch_id False)
                  else return ()))"

text \<open>
  The second loop: the tombstone row is built with \<open>str\<close> on the texts and \<open>float\<close> on
  \<open>montant_paye\<close>, after the current version has been closed.
\<close>

definition tombstone_paiement ::
  "runtime \<Rightarrow> (string \<rightharpoonup> paiement_current) \<Rightarrow> date \<Rightarrow> int \<Rightarrow> string \<Rightarrow> unit io" where
  "tombstone_paiement R gold_current as_of_date batch_id ref =
     (case gold_current ref of
        None \<Rightarrow> raise KeyError
      | Some cur \<Rightarrow>
          if pc_is_deleted cur = False
          then bind (close_current_paiement ref as_of_date) (\<lambda>_.
               bind (py_float (pc_montant_paye cur)) (\<lambda>montant_paye.
                 let tomb = \<lparr>pr_ref_paiement = ref,
                             pr_ref_salarie = str_text (pc_ref_salarie cur),
                             pr_montant_paye = Some montant_paye,
                             pr_rib_salarie = str_text (pc_rib_salarie cur),
                             pr_date_paiement = pc_date_paiement cur,
                             pr_ref_demande_avance = str_text (pc_ref_demande_avance cur)\<rparr>
                 in insert_version_paiement R tomb as_of_date batch_id True))
          else return ())"

definition paiement_run :: "runtime \<Rightarrow> string \<Rightarrow> date \<Rightarrow> unit io" where
  "paiement_run R batch_dataset as_of_date =
     bind (get_latest_batch_id batch_dataset as_of_date) (\<lambda>batch_id.
     bind fetch_silver_paiement (\<lambda>silver.
     bind fetch_gold_current_paiement (\<lambda>gold_current.
       let silver_keys = dom silver; gold_keys = dom gold_current in
       bind (for_each (set_iter R silver_keys)
               (upsert_paiement R silver gold_current as_of_date batch_id)) (\<lambda>_.
       let deleted_refs = gold_keys - silver_keys in
       for_each (set_iter R deleted_refs)
         (tombstone_paiement R gold_current as_of_date batch_id)))))"

definition main_paiement :: "runtime \<Rightarrow> string \<Rightarrow> date \<Rightarrow> unit io" where
  "main_paiement R batch_dataset as_of_date =
     try_rollback (bind (paiement_run R batch_dataset as_of_date) (\<lambda>_. commit))"

section \<open>The demande_avance reconciler, enriched with the payment\<close>

text \<open>
  \<^verbatim>\<open>scripts/apply_gold_demande_avance.py\<close>. The snapshot is the left join of
  \<open>silver.demande_avance\<close> with \<open>silver.paiement\<close> on \<open>ref_demande_avance\<close>; a
  \<open>NULL\<close> key matches nothing.
\<close>

type_synonym demande_with_paiement_row =
  "string option \<times> string option \<times> rat option \<times> rat option \<times> date option \<times> string option"

definition demande_left_join_paiement :: "database \<Rightarrow> demande_with_paiement_row list" where
  "demande_left_join_paiement db =
     concat (map
       (\<lambda>(rda, ref_salarie, montant_demande).
          let matches =
                filter (\<lambda>(ref_paiement, p_ref_salarie, montant_paye, rib_salarie,
                           date_paiement, p_rda). p_rda \<noteq> None \<and> p_rda = rda)
                  (silver_paiement db)
          in if matches = []
             then [(rda, ref_salarie, montant_demande, None, None, None)]
             else map (\<lambda>(ref_paiement, p_ref_salarie, montant_paye, rib_salarie,
                          date_paiement, p_rda).
                         (rda, ref_salarie, montant_demande, montant_paye, date_paiement,
                          ref_paiement)) matches)
       (silver_demande_avance db))"

record demande_row =
  dr_ref_demande_avance :: string
  dr_ref_salarie :: string
  dr_montant_demande :: "rat option"
  dr_montant_paye :: "rat option"
  dr_date_paiement :: "date option"
  dr_ref_paiement :: "string option"

record demande_current =
  dc_ref_salarie :: "string option"
  dc_montant_demande :: "rat option"
  dc_montant_paye :: "rat option"
  dc_date_paiement :: "date option"
  dc_ref_paiement :: "string option"
  dc_record_hash :: string
  dc_is_deleted :: bool

definition silver_demande_dict ::
  "demande_with_paiement_row list \<Rightarrow> (string \<rightharpoonup> demande_row)" where
  "silver_demande_dict rows =
     fold (\<lambda>(rda, ref_salarie, montant_demande, montant_paye, date_paiement, ref_paiement) out.
             out(str_text rda \<mapsto>
               \<lparr>dr_ref_demande_avance = str_text rda,
                dr_ref_salarie = str_text ref_salarie,
                dr_montant_demande =
                  (case montant_demande of None \<Rightarrow> None | Some x \<Rightarrow> Some x),
                dr_montant_paye = (case montant_paye of None \<Rightarrow> None | Some x \<Rightarrow> Some x),
                dr_date_paiement = date_paiement,
                dr_ref_paiement =
                  (case ref_paiement of None \<Rightarrow> None | Some x \<Rightarrow> Some (str_text (Some x)))\<rparr>))
          rows Map.empty"

definition fetch_silver_demande_with_paiement :: "(string \<rightharpoonup> demande_row) io" where
  "fetch_silver_demande_with_paiement =
     bind execute (\<lambda>_ c.
       (Inr (silver_demande_dict (demande_left_join_paiement (session c))), c))"

definition gold_demande_dict ::
  "demande_avance_histo_row list \<Rightarrow> (string \<rightharpoonup> demande_current)" where
  "gold_demande_dict rows =
     fold (\<lambda>r out.
             out(dh_ref_demande_avance r \<mapsto>
               \<lparr>dc_ref_salarie = dh_ref_salarie r, dc_montant_demande = dh_montant_demande r,
                dc_montant_paye = dh_montant_paye r, dc_date_paiement = dh_date_paiement r,
                dc_ref_paiement = dh_ref_paiement r, dc_record_hash = dh_record_hash r,
                dc_is_deleted = dh_is_deleted r\<rparr>))
          (filter dh_is_current rows) Map.empty"

definition fetch_gold_current_demande :: "(string \<rightharpoonup> demande_current) io" where
  "fetch_gold_current_demande =
     bind execute (\<lambda>_ c. (Inr (gold_demande_dict (demande_avance_histo (session c))), c))"

definition close_current_demande :: "string \<Rightarrow> date \<Rightarrow> unit io" where
  "close_current_demande ref_demande_avance as_of_date =
     execute_write (CloseDemande ref_demande_avance as_of_date)"

definition demande_hash :: "runtime \<Rightarrow> demande_row \<Rightarrow> bool \<Rightarrow> string" where
  "demande_hash R row is_deleted =
     md5_hash R [PStr (dr_ref_salarie row), of_float (dr_montant_demande row),
                 of_float (dr_montant_paye row), of_date (dr_date_paiement row),
                 of_text (dr_ref_paiement row), PBool is_deleted]"

definition insert_version_demande ::
  "runtime \<Rightarrow> demande_row \<Rightarrow> date \<Rightarrow> int \<Rightarrow> bool \<Rightarrow> unit io" where
  "insert_version_demande R row as_of_date batch_id is_deleted =
     (let record_hash = demande_hash R row is_deleted
      in execute_write (InsertDemande
           \<lparr>dh_ref_demande_avance = dr_ref_demande_avance row,
            dh_ref_salarie = Some (dr_ref_salarie row),
            dh_montant_demande = dr_montant_demande row,
            dh_montant_paye = dr_montant_paye row,
            dh_date_paiement = dr_date_paiement row,
            dh_ref_paiement = dr_ref_paiement row,
            dh_valid_from = as_of_date, dh_valid_to = open_ended, dh_is_current = True,
            dh_is_deleted = is_deleted, dh_record_hash = record_hash,
            dh_batch_id = batch_id\<rparr>))"

definition upsert_demande ::
  "runtime \<Rightarrow> (string \<rightharpoonup> demande_row) \<Rightarrow> (string \<rightharpoonup> demande_current) \<Rightarrow> date \<Rightarrow> int \<Rightarrow>
   string \<Rightarrow> unit io" where
  "upsert_demande R silver gold_current as_of_date batch_id rda =
     (case silver rda of
        None \<Rightarrow> raise KeyError
      | Some row \<Rightarrow>
          (let new_hash = demande_hash R row False
           in case gold_current rda of
                None \<Rightarrow> insert_version_demande R row as_of_date batch_id False
              | Some cur \<Rightarrow>
                  if dc_record_hash cur \<noteq> new_hash \<or> dc_is_deleted cur = True
                  then bind (close_current_demande rda as_of_date)
                         (\<lambda>_. insert_version_demande R row as_of_date batch_id False)
                  else return ()))"

text \<open>
  The second loop: \<open>float\<close> on \<open>montant_demande\<close> has no guard, \<open>montant_paye\<close> and
  \<open>ref_paiement\<close> are converted only when they are not \<open>None\<close>.
\<close>

definition tombstone_demande ::
  "runtime \<Rightarrow> (string \<rightharpoonup> demande_current) \<Rightarrow> date \<Rightarrow> int \<Rightarrow> string \<Rightarrow> unit io" where
  "tombstone_demande R gold_current as_of_date batch_id rda =
     (case gold_current rda of
        None \<Rightarrow> raise KeyError
      | Some cur \<Rightarrow>
          if dc_is_deleted cur = False
          then bind (close_current_demande rda as_of_date) (\<lambda>_.
               bind (py_float (dc_montant_demande cur)) (\<lambda>montant_demande.
               bind (case dc_montant_paye cur of
                       None \<Rightarrow> return None
                     | Some x \<Rightarrow> bind (py_float (Some x)) (\<lambda>y. return (Some y)))
                 (\<lambda>montant_paye.
                 let tomb = \<lparr>dr_ref_demande_avance = rda,
                             dr_ref_salarie = str_text (dc_ref_salarie cur),
                             dr_montant_demande = Some montant_demande,
                             dr_montant_paye = montant_paye,
                             dr_date_paiement = dc_date_paiement cur,
                             dr_ref_paiement =
                               (case dc_ref_paiement cur of
                                  None \<Rightarrow> None
                                | Some x \<Rightarrow> Some (str_text (Some x)))\<rparr>
                 in insert_version_demande R tomb as_of_date batch_id True)))
          else return ())"

definition demande_run :: "runtime \<Rightarrow> string \<Rightarrow> date \<Rightarrow> unit io" where
  "demande_run R batch_dataset as_of_date =
     bind (get_latest_batch_id batch_dataset as_of_date) (\<lambda>batch_id.
     bind fetch_silver_demande_with_paiement (\<lambda>silver.
     bind fetch_gold_current_demande (\<lambda>gold_current.
       let silver_keys = dom silver; gold_keys = dom gold_current in
       bind (for_each (set_iter R silver_keys)
               (upsert_demande R silver gold_current as_of_date batch_id)) (\<lambda>_.
       let deleted_rda = gold_keys - silver_keys in
       for_each (set_iter R deleted_rda)
         (tombstone_demande R gold_current as_of_date batch_id)))))"

definition main_demande :: "runtime \<Rightarrow> string \<Rightarrow> date \<Rightarrow> unit io" where
  "main_demande R batch_dataset as_of_date =
     try_rollback (bind (demande_run R batch_dataset as_of_date) (\<lambda>_. commit))"

section \<open>What a run executes\<close>

text \<open>
  \<open>traced ops c res\<close>: from the connection \<open>c\<close>, an action ended in \<open>res\<close> having
  executed a prefix of the write statements \<open>ops\<close> (all of them when it did not raise),
  with their effect on the session and nothing committed.
\<close>

definition traced :: "stmt list \<Rightarrow> conn \<Rightarrow> (error + 'a) \<times> conn \<Rightarrow> bool" where
  "traced ops c res =
     (committed (snd res) = committed c \<and>
      (\<exists>done rest. ops = done @ rest \<and> (isl (fst res) \<or> rest = []) \<and>
         session (snd res) = fold apply_stmt done (session c) \<and>
         executed (snd res) = executed c @ done))"

lemma traced_return: "traced [] c (return a c)"
  by (simp add: traced_def return_def)

lemma traced_raise: "traced [] c (raise e c)"
  by (simp add: traced_def raise_def)

lemma traced_execute: "traced [] c (execute c)"
  by (simp add: traced_def execute_def split: list.splits)

lemma traced_bind:
  assumes "traced ops1 c (m c)"
    and "\<And>a c1. m c = (Inr a, c1) \<Longrightarrow> traced ops2 c1 (f a c1)"
  shows "traced (ops1 @ ops2) c (bind m f c)"
proof (cases "m c")
  case (Pair r c1)
  show ?thesis
  proof (cases r)
    case (Inl e)
    with Pair assms(1) show ?thesis
      by (auto simp: traced_def bind_def)
  next
    case (Inr a)
    with Pair assms(1) have c1: "committed c1 = committed c"
      "session c1 = fold apply_stmt ops1 (session c)" "executed c1 = executed c @ ops1"
      by (auto simp: traced_def)
    from assms(2)[OF Pair[unfolded Inr]] obtain d rest where
      d: "ops2 = d @ rest" "isl (fst (f a c1)) \<or> rest = []"
         "committed (snd (f a c1)) = committed c1"
         "session (snd (f a c1)) = fold apply_stmt d (session c1)"
         "executed (snd (f a c1)) = executed c1 @ d"
      by (auto simp: traced_def)
    have "bind m f c = f a c1" using Pair Inr by (simp add: bind_def)
    with c1 d show ?thesis
      unfolding traced_def
      by (intro conjI exI[of _ "ops1 @ d"] exI[of _ rest]) auto
  qed
qed

lemma traced_execute_write: "traced [s] c (execute_write s c)"
proof -
  have "traced ([] @ [s]) c (bind execute (\<lambda>_ c.
          (Inr (), c\<lparr>session := apply_stmt s (session c), executed := executed c @ [s]\<rparr>)) c)"
    by (rule traced_bind, rule traced_execute) (simp add: traced_def)
  then show ?thesis by (simp add: execute_write_def)
qed

lemma traced_for_each:
  assumes "\<And>x c. x \<in> set xs \<Longrightarrow> traced (ops x) c (body x c)"
  shows "traced (concat (map ops xs)) c (for_each xs body c)"
  using assms
proof (induction xs arbitrary: c)
  case Nil
  then show ?case by (simp add: traced_return)
next
  case (Cons x xs)
  have "traced (ops x @ concat (map ops xs)) c (bind (body x) (\<lambda>_. for_each xs body) c)"
    by (rule traced_bind) (simp_all add: Cons)
  then show ?case by simp
qed

text \<open>An action that, when the database refuses nothing, does not raise.\<close>

definition sound :: "'a io \<Rightarrow> bool" where
  "sound m = (\<forall>c. plan c = [] \<longrightarrow> \<not> isl (fst (m c)) \<and> plan (snd (m c)) = [])"

lemma sound_return: "sound (return a)"
  by (simp add: sound_def return_def)

lemma sound_execute: "sound execute"
  by (simp add: sound_def execute_def)

lemma sound_bind:
  assumes "sound m" and "\<And>a. sound (f a)"
  shows "sound (bind m f)"
  unfolding sound_def
proof (intro allI impI)
  fix c :: conn
  assume p: "plan c = []"
  obtain r c1 where mc: "m c = (r, c1)" by (cases "m c")
  with assms(1) p obtain a where r: "r = Inr a" and p1: "plan c1 = []"
    by (cases r) (auto simp: sound_def)
  have "bind m f c = f a c1" using mc r by (simp add: bind_def)
  with assms(2)[of a] p1 show "\<not> isl (fst (bind m f c)) \<and> plan (snd (bind m f c)) = []"
    by (simp add: sound_def)
qed

lemma sound_execute_write: "sound (execute_write s)"
  unfolding execute_write_def
  by (rule sound_bind, rule sound_execute) (simp add: sound_def)

lemma sound_for_each:
  assumes "\<And>x. x \<in> set xs \<Longrightarrow> sound (body x)"
  shows "sound (for_each xs body)"
  using assms
proof (induction xs)
  case Nil
  then show ?case by (simp add: sound_return)
next
  case (Cons x xs)
  show ?case
    unfolding for_each.simps
    by (rule sound_bind) (simp_all add: Cons)
qed

subsection \<open>The operations of the specification\<close>

text \<open>
  Section 4.3 of the specification describes the engine as a function from the source
  snapshot and the current versions to an ordered list of operations. These definitions
  follow its words (pass A, pass B); the lemmas below compare them with what \<open>main\<close>
  executes.
\<close>

definition salarie_fingerprint :: "runtime \<Rightarrow> salarie_row \<Rightarrow> string" where
  "salarie_fingerprint R row =
     md5_hash R [of_text (sr_nni row), of_text (sr_nom row), of_text (sr_prenom row), PBool False]"

definition reconcile_upsert ::
  "runtime \<Rightarrow> (string \<rightharpoonup> salarie_row) \<Rightarrow> (string \<rightharpoonup> salarie_current) \<Rightarrow> date \<Rightarrow> int \<Rightarrow>
   string \<Rightarrow> stmt list" where
  "reconcile_upsert R source current as_of batch_id k =
     (case source k of
        None \<Rightarrow> []
      | Some row \<Rightarrow>
          (case current k of
             None \<Rightarrow> [InsertSalarie (salarie_version R row as_of batch_id False)]
           | Some cur \<Rightarrow>
               if sc_record_hash cur \<noteq> salarie_fingerprint R row \<or> sc_is_deleted cur
               then [CloseSalarie k as_of,
                     InsertSalarie (salarie_version R row as_of batch_id False)]
               else []))"

definition reconcile_tombstone ::
  "runtime \<Rightarrow> (string \<rightharpoonup> salarie_current) \<Rightarrow> date \<Rightarrow> int \<Rightarrow> string \<Rightarrow> stmt list" where
  "reconcile_tombstone R current as_of batch_id k =
     (case current k of
        None \<Rightarrow> []
      | Some cur \<Rightarrow>
          if sc_is_deleted cur then []
          else [CloseSalarie k as_of,
                InsertSalarie (salarie_version R
                  \<lparr>sr_ref_salarie = k, sr_nni = sc_nni cur, sr_nom = sc_nom cur,
                   sr_prenom = sc_prenom cur\<rparr> as_of batch_id True)])"

definition reconcile :: "runtime \<Rightarrow> database \<Rightarrow> date \<Rightarrow> int \<Rightarrow> stmt list" where
  "reconcile R db as_of batch_id =
     (let source = silver_salarie_dict (silver_salarie db);
          current = gold_salarie_dict (salarie_histo db)
      in concat (map (reconcile_upsert R source current as_of batch_id)
                   (set_iter R (dom source))) @
         concat (map (reconcile_tombstone R current as_of batch_id)
                   (set_iter R (dom current - dom source))))"

lemma traced_close_current: "traced [CloseSalarie k d] c (close_current k d c)"
  by (simp add: close_current_def traced_execute_write)

lemma traced_insert_version:
  "traced [InsertSalarie (salarie_version R row d b del)] c (insert_version R row d b del c)"
  by (simp add: insert_version_def traced_execute_write)

lemma traced_close_insert:
  "traced [CloseSalarie k d, InsertSalarie (salarie_version R row d b del)] c
     (bind (close_current k d) (\<lambda>_. insert_version R row d b del) c)"
  using traced_bind[of "[CloseSalarie k d]" c "close_current k d"
      "[InsertSalarie (salarie_version R row d b del)]" "\<lambda>_. insert_version R row d b del"]
  by (simp add: traced_close_current traced_insert_version)

lemma traced_upsert_salarie:
  "traced (reconcile_upsert R silver gold d b k) c (upsert_salarie R silver gold d b k c)"
  by (auto simp: reconcile_upsert_def upsert_salarie_def salarie_fingerprint_def
        traced_raise traced_return traced_insert_version traced_close_insert
      split: option.splits)

lemma traced_tombstone_salarie:
  "traced (reconcile_tombstone R gold d b k) c (tombstone_salarie R gold d b k c)"
  by (auto simp: reconcile_tombstone_def tombstone_salarie_def
        traced_raise traced_return traced_close_insert
      split: option.splits)

lemma sound_upsert_salarie:
  "silver k \<noteq> None \<Longrightarrow> sound (upsert_salarie R silver gold d b k)"
  by (auto simp: upsert_salarie_def close_current_def insert_version_def
      intro!: sound_bind sound_execute_write sound_return split: option.splits)

lemma sound_tombstone_salarie:
  "gold k \<noteq> None \<Longrightarrow> sound (tombstone_salarie R gold d b k)"
  by (auto simp: tombstone_salarie_def close_current_def insert_version_def
      intro!: sound_bind sound_execute_write sound_return split: option.splits)

text \<open>
  Iterating a finite set visits each member once. \<open>planned\<close> is the list of operations
  of a run on a database: none when no batch resolves.
\<close>

definition iter_ok :: "runtime \<Rightarrow> bool" where
  "iter_ok R = (\<forall>S. finite S \<longrightarrow> set (set_iter R S) = S \<and> distinct (set_iter R S))"

definition planned :: "runtime \<Rightarrow> string \<Rightarrow> date \<Rightarrow> database \<Rightarrow> stmt list" where
  "planned R dataset as_of db =
     (case success_batches dataset as_of (batch_run db) of
        [] \<Rightarrow> []
      | batch_id # _ \<Rightarrow> reconcile R db as_of batch_id)"

lemma get_latest_traced: "traced [] c (get_latest_batch_id ds d c)"
proof -
  have "traced ([] @ []) c (get_latest_batch_id ds d c)"
    unfolding get_latest_batch_id_def
    by (rule traced_bind, rule traced_execute) (simp add: traced_def split: list.splits)
  then show ?thesis by simp
qed

lemma get_latest_Inr:
  assumes "get_latest_batch_id ds d c = (Inr b, c1)"
  shows "session c1 = session c \<and> (\<exists>bs. success_batches ds d (batch_run (session c)) = b # bs)"
  using assms
  by (auto simp: get_latest_batch_id_def bind_def execute_def split: list.splits if_splits)

lemma fetch_silver_traced: "traced [] c (fetch_silver_salarie c)"
proof -
  have "traced ([] @ []) c (fetch_silver_salarie c)"
    unfolding fetch_silver_salarie_def
    by (rule traced_bind, rule traced_execute) (simp add: traced_def)
  then show ?thesis by simp
qed

lemma fetch_silver_Inr:
  assumes "fetch_silver_salarie c = (Inr s, c1)"
  shows "session c1 = session c \<and> s = silver_salarie_dict (silver_salarie (session c))"
  using assms
  by (auto simp: fetch_silver_salarie_def bind_def execute_def split: list.splits if_splits)

lemma fetch_gold_traced: "traced [] c (fetch_gold_current c)"
proof -
  have "traced ([] @ []) c (fetch_gold_current c)"
    unfolding fetch_gold_current_def
    by (rule traced_bind, rule traced_execute) (simp add: traced_def)
  then show ?thesis by simp
qed

lemma fetch_gold_Inr:
  assumes "fetch_gold_current c = (Inr g, c1)"
  shows "session c1 = session c \<and> g = gold_salarie_dict (salarie_histo (session c))"
  using assms
  by (auto simp: fetch_gold_current_def bind_def execute_def split: list.splits if_splits)

lemma traced_passes:
  "traced (concat (map (reconcile_upsert R s g d b) (set_iter R (dom s))) @
           concat (map (reconcile_tombstone R g d b) (set_iter R (dom g - dom s)))) c
     (bind (for_each (set_iter R (dom s)) (upsert_salarie R s g d b))
        (\<lambda>_. for_each (set_iter R (dom g - dom s)) (tombstone_salarie R g d b)) c)"
proof (rule traced_bind)
  show "traced (concat (map (reconcile_upsert R s g d b) (set_iter R (dom s)))) c
          (for_each (set_iter R (dom s)) (upsert_salarie R s g d b) c)"
    by (rule traced_for_each) (rule traced_upsert_salarie)
next
  fix a c1
  show "traced (concat (map (reconcile_tombstone R g d b) (set_iter R (dom g - dom s)))) c1
          (for_each (set_iter R (dom g - dom s)) (tombstone_salarie R g d b) c1)"
    by (rule traced_for_each) (rule traced_tombstone_salarie)
qed

lemma salarie_run_unfold:
  "salarie_run R ds d =
     bind (get_latest_batch_id ds d) (\<lambda>b.
     bind fetch_silver_salarie (\<lambda>s.
     bind fetch_gold_current (\<lambda>g.
       bind (for_each (set_iter R (dom s)) (upsert_salarie R s g d b))
         (\<lambda>_. for_each (set_iter R (dom g - dom s)) (tombstone_salarie R g d b)))))"
  by (simp add: salarie_run_def Let_def)

lemma traced_salarie_run: "traced (planned R ds d (session c)) c (salarie_run R ds d c)"
proof -
  let ?P = "planned R ds d (session c)"
  have "traced ([] @ ?P) c (salarie_run R ds d c)"
    unfolding salarie_run_unfold
  proof (rule traced_bind, rule get_latest_traced)
    fix b c1
    assume "get_latest_batch_id ds d c = (Inr b, c1)"
    from get_latest_Inr[OF this]
    have s1: "session c1 = session c" and P: "?P = reconcile R (session c) d b"
      by (auto simp: planned_def)
    have "traced ([] @ ?P) c1
            (bind fetch_silver_salarie (\<lambda>s.
             bind fetch_gold_current (\<lambda>g.
               bind (for_each (set_iter R (dom s)) (upsert_salarie R s g d b))
                 (\<lambda>_. for_each (set_iter R (dom g - dom s)) (tombstone_salarie R g d b)))) c1)"
    proof (rule traced_bind, rule fetch_silver_traced)
      fix s c2
      assume "fetch_silver_salarie c1 = (Inr s, c2)"
      from fetch_silver_Inr[OF this] s1
      have s2: "session c2 = session c"
        and s: "s = silver_salarie_dict (silver_salarie (session c))" by auto
      have "traced ([] @ ?P) c2
              (bind fetch_gold_current (\<lambda>g.
                 bind (for_each (set_iter R (dom s)) (upsert_salarie R s g d b))
                   (\<lambda>_. for_each (set_iter R (dom g - dom s)) (tombstone_salarie R g d b))) c2)"
      proof (rule traced_bind, rule fetch_gold_traced)
        fix g c3
        assume "fetch_gold_current c2 = (Inr g, c3)"
        from fetch_gold_Inr[OF this] s2
        have g: "g = gold_salarie_dict (salarie_histo (session c))" by auto
        have "?P = concat (map (reconcile_upsert R s g d b) (set_iter R (dom s))) @
                   concat (map (reconcile_tombstone R g d b) (set_iter R (dom g - dom s)))"
          by (simp add: P reconcile_def s g Let_def)
        then show "traced ?P c3
                (bind (for_each (set_iter R (dom s)) (upsert_salarie R s g d b))
                   (\<lambda>_. for_each (set_iter R (dom g - dom s)) (tombstone_salarie R g d b)) c3)"
          by (simp add: traced_passes)
      qed
      then show "traced ?P c2
              (bind fetch_gold_current (\<lambda>g.
                 bind (for_each (set_iter R (dom s)) (upsert_salarie R s g d b))
                   (\<lambda>_. for_each (set_iter R (dom g - dom s)) (tombstone_salarie R g d b))) c2)"
        by simp
    qed
    then show "traced ?P c1
            (bind fetch_silver_salarie (\<lambda>s.
             bind fetch_gold_current (\<lambda>g.
               bind (for_each (set_iter R (dom s)) (upsert_salarie R s g d b))
                 (\<lambda>_. for_each (set_iter R (dom g - dom s)) (tombstone_salarie R g d b)))) c1)"
      by simp
  qed
  then show ?thesis by simp
qed

lemma bind_Inr: "m c = (Inr a, c1) \<Longrightarrow> bind m f c = f a c1"
  by (simp add: bind_def)

lemma bind_Inl: "m c = (Inl e, c1) \<Longrightarrow> bind m f c = (Inl e, c1)"
  by (simp add: bind_def)

lemma commit_cases:
  "(isl (fst (commit c)) \<and> committed (snd (commit c)) = committed c \<or>
    \<not> isl (fst (commit c)) \<and> committed (snd (commit c)) = session c) \<and>
   session (snd (commit c)) = session c \<and> executed (snd (commit c)) = executed c"
  by (simp add: commit_def bind_def execute_def split: list.splits)

lemma main_salarie_cases:
  fixes R ds d c
  defines "res \<equiv> main_salarie R ds d c"
  defines "P \<equiv> planned R ds d (session c)"
  shows "(if isl (fst res)
          then committed (snd res) = committed c \<and> session (snd res) = committed c \<and>
               (\<exists>done rest. P = done @ rest \<and> executed (snd res) = executed c @ done)
          else committed (snd res) = fold apply_stmt P (session c) \<and>
               session (snd res) = fold apply_stmt P (session c) \<and>
               executed (snd res) = executed c @ P)"
proof -
  obtain r c1 where run: "salarie_run R ds d c = (r, c1)" by (cases "salarie_run R ds d c")
  from traced_salarie_run[of R ds d c] run obtain dn rest where
    t: "committed c1 = committed c" "P = dn @ rest" "isl r \<or> rest = []"
       "session c1 = fold apply_stmt dn (session c)" "executed c1 = executed c @ dn"
    unfolding traced_def P_def by auto
  have part: "\<exists>done rest. P = done @ rest \<and> executed c1 = executed c @ done"
    using t(2,5) by blast
  show ?thesis
  proof (cases r)
    case (Inl e)
    then have "res = (Inl e, rollback c1)"
      using run by (simp add: res_def main_salarie_def try_rollback_def bind_Inl)
    then show ?thesis using t(1) part by (simp add: rollback_def)
  next
    case (Inr u)
    with t(2,3) have full: "dn = P" by simp
    have b: "bind (salarie_run R ds d) (\<lambda>_. commit) c = commit c1"
      using run Inr by (simp add: bind_Inr)
    obtain r2 c2 where cm: "commit c1 = (r2, c2)" by (cases "commit c1")
    from commit_cases[of c1] cm
    have cc: "isl r2 \<and> committed c2 = committed c1 \<or> \<not> isl r2 \<and> committed c2 = session c1"
      "session c2 = session c1" "executed c2 = executed c1" by auto
    show ?thesis
    proof (cases r2)
      case (Inl e)
      then have "res = (Inl e, rollback c2)"
        by (simp add: res_def main_salarie_def try_rollback_def b cm)
      moreover have "committed c2 = committed c" using cc(1) Inl t(1) by auto
      ultimately show ?thesis using part cc(3) by (simp add: rollback_def)
    next
      case (Inr u2)
      then have "res = (Inr u2, c2)"
        by (simp add: res_def main_salarie_def try_rollback_def b cm)
      moreover have "committed c2 = session c1" using cc(1) Inr by auto
      ultimately show ?thesis using cc(2,3) t(4,5) full by simp
    qed
  qed
qed

lemma dom_fold_upd:
  "dom (fold (\<lambda>x m. m(key x \<mapsto> val x)) xs m0) = dom m0 \<union> key ` set xs"
  by (induction xs arbitrary: m0) auto

lemma dom_silver_salarie_dict:
  "dom (silver_salarie_dict rows) = (\<lambda>(ref, nni, nom, prenom). str_text ref) ` set rows"
proof -
  have "silver_salarie_dict rows =
        fold (\<lambda>x m. m((\<lambda>(ref, nni, nom, prenom). str_text ref) x \<mapsto>
                (\<lambda>(ref, nni, nom, prenom). \<lparr>sr_ref_salarie = str_text ref, sr_nni = Some (str_text nni),
                sr_nom = Some (str_text nom), sr_prenom = Some (str_text prenom)\<rparr>) x)) rows Map.empty"
    unfolding silver_salarie_dict_def
    by (rule arg_cong[where f="\<lambda>f. fold f rows Map.empty"]) (auto simp: fun_eq_iff)
  then show ?thesis by (simp add: dom_fold_upd)
qed

lemma dom_gold_salarie_dict:
  "dom (gold_salarie_dict rows) = sh_ref_salarie ` {r \<in> set rows. sh_is_current r}"
  unfolding gold_salarie_dict_def by (simp add: dom_fold_upd)

lemma finite_dom_silver [simp]: "finite (dom (silver_salarie_dict rows))"
  by (simp add: dom_silver_salarie_dict)

lemma finite_dom_gold [simp]: "finite (dom (gold_salarie_dict rows))"
  by (simp add: dom_gold_salarie_dict)

lemma sound_salarie_passes:
  assumes "iter_ok R" "finite (dom s)" "finite (dom g)"
  shows "sound (bind (for_each (set_iter R (dom s)) (upsert_salarie R s g d b))
         (\<lambda>_. for_each (set_iter R (dom g - dom s)) (tombstone_salarie R g d b)))"
proof (rule sound_bind)
  from assms have "set (set_iter R (dom s)) = dom s" by (simp add: iter_ok_def)
  then show "sound (for_each (set_iter R (dom s)) (upsert_salarie R s g d b))"
    by (intro sound_for_each sound_upsert_salarie) auto
next
  fix a :: unit
  from assms have "set (set_iter R (dom g - dom s)) = dom g - dom s" by (simp add: iter_ok_def)
  then show "sound (for_each (set_iter R (dom g - dom s)) (tombstone_salarie R g d b))"
    by (intro sound_for_each sound_tombstone_salarie) auto
qed

lemma main_salarie_completes:
  assumes "iter_ok R" "plan c = []"
    and "success_batches ds d (batch_run (session c)) \<noteq> []"
  shows "fst (main_salarie R ds d c) = Inr ()"
proof -
  obtain b bs where b: "success_batches ds d (batch_run (session c)) = b # bs"
    using assms(3) by (cases "success_batches ds d (batch_run (session c))") auto
  let ?s = "silver_salarie_dict (silver_salarie (session c))"
  let ?g = "gold_salarie_dict (salarie_histo (session c))"
  let ?both = "bind (for_each (set_iter R (dom ?s)) (upsert_salarie R ?s ?g d b))
         (\<lambda>_. for_each (set_iter R (dom ?g - dom ?s)) (tombstone_salarie R ?g d b))"
  have run: "salarie_run R ds d c = ?both c"
    using assms(2) b
    by (simp add: salarie_run_unfold bind_def get_latest_batch_id_def execute_def
        fetch_silver_salarie_def fetch_gold_current_def)
  have "sound ?both" by (rule sound_salarie_passes[OF assms(1)]) simp_all
  with assms(2) have l: "\<not> isl (fst (?both c))" "plan (snd (?both c)) = []"
    by (auto simp: sound_def)
  obtain r c1 where rc: "?both c = (r, c1)" by (cases "?both c")
  with l obtain u where "r = Inr u" "plan c1 = []" by (cases r) auto
  then have "salarie_run R ds d c = (Inr u, c1)" "plan c1 = []" using run rc by auto
  then show ?thesis
    by (simp add: main_salarie_def try_rollback_def bind_Inr commit_def execute_def)
qed

lemma rev_sort_head:
  fixes xs :: "int list"
  assumes "rev (sort xs) = b # bs"
  shows "b \<in> set xs \<and> (\<forall>x \<in> set xs. x \<le> b)"
proof -
  from assms have s: "sort xs = rev bs @ [b]"
    by (metis rev.simps(2) rev_rev_ident)
  have "sorted (rev bs @ [b])" using s by (metis sorted_sort)
  then have "\<forall>x \<in> set (rev bs). x \<le> b" by (simp add: sorted_append)
  moreover have "set xs = set (rev bs @ [b])" using s by (metis set_sort)
  ultimately show ?thesis by auto
qed

lemma success_batches_head:
  assumes "success_batches ds d rows = b # bs"
  shows "(\<exists>row \<in> set rows. br_batch_id row = b \<and> br_dataset row = ds \<and>
            br_as_of_date row = d \<and> br_status row = ''SUCCESS'') \<and>
         (\<forall>row \<in> set rows. br_dataset row = ds \<and> br_as_of_date row = d \<and>
            br_status row = ''SUCCESS'' \<longrightarrow> br_batch_id row \<le> b)"
  using rev_sort_head[OF assms[unfolded success_batches_def]] by auto

lemma get_latest_none:
  assumes "success_batches ds d (batch_run (session c)) = []"
  shows "get_latest_batch_id ds d c =
           (Inl (if plan c \<noteq> [] \<and> hd (plan c) then OperationalError else RuntimeError),
            c\<lparr>plan := drop 1 (plan c)\<rparr>)"
  using assms
  by (cases "plan c") (auto simp: get_latest_batch_id_def bind_def execute_def)

lemma main_salarie_no_batch:
  assumes "success_batches ds d (batch_run (session c)) = []"
  shows "main_salarie R ds d c =
           (Inl (if plan c \<noteq> [] \<and> hd (plan c) then OperationalError else RuntimeError),
            rollback (c\<lparr>plan := drop 1 (plan c)\<rparr>))"
proof -
  let ?e = "if plan c \<noteq> [] \<and> hd (plan c) then OperationalError else RuntimeError"
  have "salarie_run R ds d c = (Inl ?e, c\<lparr>plan := drop 1 (plan c)\<rparr>)"
    unfolding salarie_run_unfold by (rule bind_Inl) (rule get_latest_none[OF assms])
  then have "bind (salarie_run R ds d) (\<lambda>_. commit) c = (Inl ?e, c\<lparr>plan := drop 1 (plan c)\<rparr>)"
    by (rule bind_Inl)
  then show ?thesis by (simp add: main_salarie_def try_rollback_def)
qed

lemma reconcile_batch_id:
  assumes "InsertSalarie v \<in> set (reconcile R db d b)"
  shows "sh_batch_id v = b"
  using assms
  by (auto simp: reconcile_def reconcile_upsert_def reconcile_tombstone_def salarie_version_def
        Let_def split: option.splits if_splits)

lemma main_salarie_executed_subset:
  "set (executed (snd (main_salarie R ds d c))) \<subseteq> set (executed c) \<union> set (planned R ds d (session c))"
  using main_salarie_cases[of R ds d c]
  by (auto split: if_splits)

subsection \<open>An example run\<close>

text \<open>
  A runtime whose digest is the identity and which iterates a set in sorted order; a
  database where \<open>S1\<close> is new in the snapshot and \<open>S2\<close> has left it.
\<close>

definition example_runtime :: runtime where
  "example_runtime =
     \<lparr>md5_hexdigest = (\<lambda>s. s), float_str = (\<lambda>x. ''0.0''), set_iter = sorted_list_of_set\<rparr>"

definition example_db :: database where
  "example_db =
     \<lparr>batch_run = [\<lparr>br_batch_id = 7, br_dataset = ''salarie'', br_as_of_date = Date 2024 9 2,
                     br_status = ''SUCCESS''\<rparr>],
      silver_salarie = [(Some ''S1'', Some ''111'', Some ''Durand'', Some ''Anne'')],
      silver_paiement = [], silver_demande_avance = [],
      salarie_histo =
        [\<lparr>sh_ref_salarie = ''S2'', sh_nni = Some ''222'', sh_nom = Some ''Martin'',
          sh_prenom = None, sh_valid_from = Date 2024 9 1, sh_valid_to = open_ended,
          sh_is_current = True, sh_is_deleted = False,
          sh_record_hash = ''222||Martin||||False'', sh_batch_id = 5\<rparr>],
      paiement_histo = [], demande_avance_histo = []\<rparr>"

lemma iter_ok_example: "iter_ok example_runtime"
  by (simp add: iter_ok_def example_runtime_def)

lemma set_iter_singleton:
  assumes "iter_ok R"
  shows "set_iter R {x} = [x]"
proof -
  from assms have s: "set (set_iter R {x}) = {x}" and d: "distinct (set_iter R {x})"
    by (simp_all add: iter_ok_def)
  show ?thesis
  proof (cases "set_iter R {x}")
    case Nil
    with s show ?thesis by simp
  next
    case (Cons y ys)
    with s d have "y = x" "set ys \<subseteq> {x}" "x \<notin> set ys" by auto
    then have "ys = []" by (cases ys) auto
    with Cons \<open>y = x\<close> show ?thesis by simp
  qed
qed

lemma set_iter_empty:
  assumes "iter_ok R"
  shows "set_iter R {} = []"
proof -
  from assms have "set (set_iter R {}) = {}" unfolding iter_ok_def by blast
  then show ?thesis by simp
qed

lemma example_planned:
  "planned example_runtime ''salarie'' (Date 2024 9 2) example_db =
     [InsertSalarie
        \<lparr>sh_ref_salarie = ''S1'', sh_nni = Some ''111'', sh_nom = Some ''Durand'',
         sh_prenom = Some ''Anne'', sh_valid_from = Date 2024 9 2, sh_valid_to = open_ended,
         sh_is_current = True, sh_is_deleted = False,
         sh_record_hash = ''111||Durand||Anne||False'', sh_batch_id = 7\<rparr>,
      CloseSalarie ''S2'' (Date 2024 9 2),
      InsertSalarie
        \<lparr>sh_ref_salarie = ''S2'', sh_nni = Some ''222'', sh_nom = Some ''Martin'',
         sh_prenom = None, sh_valid_from = Date 2024 9 2, sh_valid_to = open_ended,
         sh_is_current = True, sh_is_deleted = True,
         sh_record_hash = ''222||Martin||||True'', sh_batch_id = 7\<rparr>]"
  by (simp add: planned_def success_batches_def example_db_def reconcile_def
      silver_salarie_dict_def gold_salarie_dict_def str_text_def
      set_iter_singleton[OF iter_ok_example] reconcile_upsert_def reconcile_tombstone_def
      salarie_version_def md5_hash_def canonical_def of_text_def example_runtime_def)

lemma main_salarie_success:
  assumes "iter_ok R" and "success_batches ds d (batch_run db) \<noteq> []"
  shows "fst (main_salarie R ds d (get_conn db [])) = Inr () \<and>
         committed (snd (main_salarie R ds d (get_conn db []))) =
           fold apply_stmt (planned R ds d db) db \<and>
         session (snd (main_salarie R ds d (get_conn db []))) =
           fold apply_stmt (planned R ds d db) db \<and>
         executed (snd (main_salarie R ds d (get_conn db []))) = planned R ds d db"
proof -
  have "fst (main_salarie R ds d (get_conn db [])) = Inr ()"
    by (rule main_salarie_completes) (simp_all add: assms get_conn_def)
  with main_salarie_cases[of R ds d "get_conn db []"] show ?thesis
    by (simp add: get_conn_def)
qed

lemma example_batches:
  "success_batches ''salarie'' (Date 2024 9 2) (batch_run example_db) = [7]"
  by (simp add: success_batches_def example_db_def)

definition example_version :: salarie_histo_row where
  "example_version =
     \<lparr>sh_ref_salarie = ''S1'', sh_nni = Some ''111'', sh_nom = Some ''Durand'',
      sh_prenom = Some ''Anne'', sh_valid_from = Date 2024 9 2, sh_valid_to = open_ended,
      sh_is_current = True, sh_is_deleted = False,
      sh_record_hash = ''111||Durand||Anne||False'', sh_batch_id = 7\<rparr>"

lemma example_refused:
  "main_salarie example_runtime ''salarie'' (Date 2024 9 2)
     (get_conn example_db [False, False, False, False, True]) =
   (Inl OperationalError,
    \<lparr>committed = example_db, session = example_db, plan = [],
     executed = [InsertSalarie example_version]\<rparr>)"
  by (simp add: main_salarie_def try_rollback_def salarie_run_unfold bind_def
      get_latest_batch_id_def execute_def get_conn_def example_batches
      fetch_silver_salarie_def fetch_gold_current_def
      example_db_def silver_salarie_dict_def gold_salarie_dict_def str_text_def
      set_iter_singleton[OF iter_ok_example] set_iter_empty[OF iter_ok_example]
      upsert_salarie_def tombstone_salarie_def insert_version_def close_current_def
      execute_write_def salarie_version_def md5_hash_def canonical_def of_text_def
      example_runtime_def rollback_def example_version_def return_def success_batches_def)

text \<open>The key a write statement is about.\<close>

fun stmt_key :: "stmt \<Rightarrow> string" where
  "stmt_key (CloseSalarie k d) = k"
| "stmt_key (InsertSalarie r) = sh_ref_salarie r"
| "stmt_key (ClosePaiement k d) = k"
| "stmt_key (InsertPaiement r) = ph_ref_paiement r"
| "stmt_key (CloseDemande k d) = k"
| "stmt_key (InsertDemande r) = dh_ref_demande_avance r"

lemma filter_concat_keyed:
  assumes "\<And>x s. x \<in> set xs \<Longrightarrow> s \<in> set (ops x) \<Longrightarrow> key s = x" and "distinct xs"
  shows "filter (\<lambda>s. key s = k) (concat (map ops xs)) = (if k \<in> set xs then ops k else [])"
  using assms
proof (induction xs)
  case Nil
  then show ?case by simp
next
  case (Cons x xs)
  have here: "filter (\<lambda>s. key s = k) (ops x) = (if k = x then ops x else [])"
    using Cons.prems(1)[of x] by (auto simp: filter_empty_conv filter_id_conv)
  have rest: "filter (\<lambda>s. key s = k) (concat (map ops xs)) = (if k \<in> set xs then ops k else [])"
    using Cons by simp
  from Cons.prems(2) have "x \<notin> set xs" by simp
  with here rest show ?case by auto
qed

definition keyed :: "(string \<rightharpoonup> salarie_row) \<Rightarrow> bool" where
  "keyed m = (\<forall>k row. m k = Some row \<longrightarrow> sr_ref_salarie row = k)"

lemma keyed_fold:
  "keyed m0 \<Longrightarrow>
   keyed (fold (\<lambda>(ref_salarie, nni, nom, prenom) out.
             out(str_text ref_salarie \<mapsto>
               \<lparr>sr_ref_salarie = str_text ref_salarie, sr_nni = Some (str_text nni),
                sr_nom = Some (str_text nom), sr_prenom = Some (str_text prenom)\<rparr>)) rows m0)"
proof (induction rows arbitrary: m0)
  case Nil
  then show ?case by simp
next
  case (Cons r rows)
  obtain a b c e where r: "r = (a, b, c, e)" by (cases r) auto
  have "keyed (m0(str_text a \<mapsto> \<lparr>sr_ref_salarie = str_text a, sr_nni = Some (str_text b),
                sr_nom = Some (str_text c), sr_prenom = Some (str_text e)\<rparr>))"
    using Cons.prems by (auto simp: keyed_def)
  from Cons.IH[OF this] show ?case by (simp add: r)
qed

lemma keyed_silver: "keyed (silver_salarie_dict rows)"
  unfolding silver_salarie_dict_def by (rule keyed_fold) (simp add: keyed_def)

lemma upsert_keyed:
  assumes "keyed s" "x \<in> set (reconcile_upsert R s g d b k)"
  shows "stmt_key x = k"
  using assms
  by (auto simp: reconcile_upsert_def keyed_def salarie_version_def split: option.splits if_splits)

lemma tombstone_keyed:
  assumes "x \<in> set (reconcile_tombstone R g d b k)"
  shows "stmt_key x = k"
  using assms
  by (auto simp: reconcile_tombstone_def salarie_version_def split: option.splits if_splits)

lemma reconcile_for_key:
  fixes db R d b k
  assumes "iter_ok R"
  defines "s \<equiv> silver_salarie_dict (silver_salarie db)"
  defines "g \<equiv> gold_salarie_dict (salarie_histo db)"
  shows "filter (\<lambda>x. stmt_key x = k) (reconcile R db d b) =
           (if k \<in> dom s then reconcile_upsert R s g d b k
            else if k \<in> dom g then reconcile_tombstone R g d b k else [])"
proof -
  have fs: "finite (dom s)" and fg: "finite (dom g - dom s)" by (simp_all add: s_def g_def)
  from assms(1) fs have a: "set (set_iter R (dom s)) = dom s" "distinct (set_iter R (dom s))"
    by (simp_all add: iter_ok_def)
  from assms(1) fg have b: "set (set_iter R (dom g - dom s)) = dom g - dom s"
    "distinct (set_iter R (dom g - dom s))"
    by (simp_all add: iter_ok_def)
  have A: "filter (\<lambda>x. stmt_key x = k) (concat (map (reconcile_upsert R s g d b) (set_iter R (dom s)))) =
           (if k \<in> dom s then reconcile_upsert R s g d b k else [])"
    using filter_concat_keyed[of "set_iter R (dom s)" "reconcile_upsert R s g d b" stmt_key k]
      upsert_keyed[OF keyed_silver[of "silver_salarie db"], folded s_def] a by auto
  have B: "filter (\<lambda>x. stmt_key x = k) (concat (map (reconcile_tombstone R g d b) (set_iter R (dom g - dom s)))) =
           (if k \<in> dom g - dom s then reconcile_tombstone R g d b k else [])"
    using filter_concat_keyed[of "set_iter R (dom g - dom s)" "reconcile_tombstone R g d b" stmt_key k]
      tombstone_keyed b by auto
  show ?thesis
    unfolding reconcile_def Let_def s_def[symmetric] g_def[symmetric] filter_append A B
    by auto
qed

lemma example_silver:
  "silver_salarie_dict (silver_salarie example_db) ''S1'' =
     Some \<lparr>sr_ref_salarie = ''S1'', sr_nni = Some ''111'', sr_nom = Some ''Durand'',
           sr_prenom = Some ''Anne''\<rparr>"
  by (simp add: example_db_def silver_salarie_dict_def str_text_def)

lemma example_gold_S1: "gold_salarie_dict (salarie_histo example_db) ''S1'' = None"
  by (simp add: example_db_def gold_salarie_dict_def)

lemma tombstone_classification_salarie:
  fixes R ds d db b bs k cur
  assumes "iter_ok R" and "success_batches ds d (batch_run db) = b # bs"
    and "gold_salarie_dict (salarie_histo db) k = Some cur"
    and "silver_salarie_dict (silver_salarie db) k = None"
  defines "res \<equiv> main_salarie R ds d (get_conn db [])"
  defines "tomb \<equiv>
    \<lparr>sh_ref_salarie = k, sh_nni = sc_nni cur, sh_nom = sc_nom cur, sh_prenom = sc_prenom cur,
     sh_valid_from = d, sh_valid_to = open_ended, sh_is_current = True, sh_is_deleted = True,
     sh_record_hash =
       md5_hash R [of_text (sc_nni cur), of_text (sc_nom cur), of_text (sc_prenom cur),
                   PBool True],
     sh_batch_id = b\<rparr>"
  shows "fst res = Inr () \<and>
         filter (\<lambda>x. stmt_key x = k) (executed (snd res)) =
           (if sc_is_deleted cur then [] else [CloseSalarie k d, InsertSalarie tomb])"
proof -
  have ok: "success_batches ds d (batch_run db) \<noteq> []" using assms(2) by simp
  from main_salarie_success[OF assms(1) ok]
  have r: "fst res = Inr ()" and e: "executed (snd res) = reconcile R db d b"
    by (simp_all add: res_def planned_def assms(2))
  have "filter (\<lambda>x. stmt_key x = k) (reconcile R db d b) =
          reconcile_tombstone R (gold_salarie_dict (salarie_histo db)) d b k"
    using reconcile_for_key[OF assms(1), of k db d b] assms(3,4) by auto
  then show ?thesis
    unfolding e using r assms(3)
    by (simp add: reconcile_tombstone_def salarie_version_def tomb_def)
qed

subsection \<open>The current rows of a key\<close>

definition current_rows :: "string \<Rightarrow> database \<Rightarrow> salarie_histo_row list" where
  "current_rows k db = filter (\<lambda>r. sh_ref_salarie r = k \<and> sh_is_current r) (salarie_histo db)"

definition current_entry :: "salarie_histo_row \<Rightarrow> salarie_current" where
  "current_entry r =
     \<lparr>sc_nni = sh_nni r, sc_nom = sh_nom r, sc_prenom = sh_prenom r,
      sc_record_hash = sh_record_hash r, sc_is_deleted = sh_is_deleted r\<rparr>"

lemma rowcount_current_rows:
  "rowcount_salarie k (salarie_histo db) = length (current_rows k db)"
  by (simp add: rowcount_salarie_def current_rows_def)

lemma filter_update_salarie:
  "filter (\<lambda>r. sh_ref_salarie r = k \<and> sh_is_current r) (map (update_salarie ref d) t) =
     (if k = ref then [] else filter (\<lambda>r. sh_ref_salarie r = k \<and> sh_is_current r) t)"
  by (induction t) (auto simp: update_salarie_def)

lemma current_rows_close:
  "current_rows k (apply_stmt (CloseSalarie ref d) db) =
     (if k = ref then [] else current_rows k db)"
  by (simp add: current_rows_def filter_update_salarie)

lemma current_rows_insert:
  "current_rows k (apply_stmt (InsertSalarie v) db) =
     current_rows k db @ (if sh_ref_salarie v = k \<and> sh_is_current v then [v] else [])"
  by (simp add: current_rows_def)

lemma fold_upd_last:
  "fold (\<lambda>x m. m(key x \<mapsto> val x)) xs m0 k =
     (if filter (\<lambda>x. key x = k) xs = [] then m0 k
      else Some (val (last (filter (\<lambda>x. key x = k) xs))))"
  by (induction xs rule: rev_induct) auto

lemma gold_last:
  "gold_salarie_dict (salarie_histo db) k =
     (if current_rows k db = [] then None else Some (current_entry (last (current_rows k db))))"
proof -
  have f: "filter (\<lambda>r. sh_ref_salarie r = k) (filter sh_is_current (salarie_histo db)) =
           current_rows k db"
    unfolding current_rows_def filter_filter by (rule filter_cong) auto
  have "gold_salarie_dict (salarie_histo db) k =
        fold (\<lambda>x m. m(sh_ref_salarie x \<mapsto> current_entry x))
          (filter sh_is_current (salarie_histo db)) Map.empty k"
    by (simp add: gold_salarie_dict_def current_entry_def)
  also have "\<dots> = (if current_rows k db = [] then None
                    else Some (current_entry (last (current_rows k db))))"
    unfolding fold_upd_last f by simp
  finally show ?thesis .
qed

definition upsert_rows ::
  "runtime \<Rightarrow> (string \<rightharpoonup> salarie_row) \<Rightarrow> (string \<rightharpoonup> salarie_current) \<Rightarrow> date \<Rightarrow> int \<Rightarrow>
   string \<Rightarrow> salarie_histo_row list \<Rightarrow> salarie_histo_row list" where
  "upsert_rows R s g d b k rs =
     (case s k of
        None \<Rightarrow> rs
      | Some row \<Rightarrow>
          (case g k of
             None \<Rightarrow> rs @ [salarie_version R row d b False]
           | Some cur \<Rightarrow>
               if sc_record_hash cur \<noteq> salarie_fingerprint R row \<or> sc_is_deleted cur
               then [salarie_version R row d b False] else rs))"

definition tombstone_rows ::
  "runtime \<Rightarrow> (string \<rightharpoonup> salarie_current) \<Rightarrow> date \<Rightarrow> int \<Rightarrow>
   string \<Rightarrow> salarie_histo_row list \<Rightarrow> salarie_histo_row list" where
  "tombstone_rows R g d b k rs =
     (case g k of
        None \<Rightarrow> rs
      | Some cur \<Rightarrow>
          if sc_is_deleted cur then rs
          else [salarie_version R
                  \<lparr>sr_ref_salarie = k, sr_nni = sc_nni cur, sr_nom = sc_nom cur,
                   sr_prenom = sc_prenom cur\<rparr> d b True])"

lemma current_rows_upsert:
  assumes "keyed s"
  shows "current_rows k (fold apply_stmt (reconcile_upsert R s g d b x) db) =
           (if k = x then upsert_rows R s g d b k (current_rows k db) else current_rows k db)"
proof (cases "s x")
  case None
  then show ?thesis by (simp add: reconcile_upsert_def upsert_rows_def)
next
  case (Some row)
  with assms have key: "sh_ref_salarie (salarie_version R row d b False) = x"
    "sh_is_current (salarie_version R row d b False)"
    by (simp_all add: keyed_def salarie_version_def)
  show ?thesis
    using Some key
    by (auto simp: reconcile_upsert_def upsert_rows_def current_rows_close current_rows_insert
        simp del: apply_stmt.simps split: option.splits)
qed

lemma current_rows_tombstone:
  "current_rows k (fold apply_stmt (reconcile_tombstone R g d b x) db) =
     (if k = x then tombstone_rows R g d b k (current_rows k db) else current_rows k db)"
  by (auto simp: reconcile_tombstone_def tombstone_rows_def current_rows_close
      current_rows_insert salarie_version_def simp del: apply_stmt.simps split: option.splits)

lemma current_rows_concat:
  assumes "\<And>x db. x \<in> set xs \<Longrightarrow>
             current_rows k (fold apply_stmt (ops x) db) =
               (if k = x then F (current_rows k db) else current_rows k db)"
    and "distinct xs"
  shows "current_rows k (fold apply_stmt (concat (map ops xs)) db) =
           (if k \<in> set xs then F (current_rows k db) else current_rows k db)"
  using assms
proof (induction xs arbitrary: db)
  case Nil
  then show ?case by simp
next
  case (Cons x xs)
  let ?db = "fold apply_stmt (ops x) db"
  have step: "current_rows k ?db = (if k = x then F (current_rows k db) else current_rows k db)"
    using Cons.prems(1)[of x db] by simp
  have rest: "current_rows k (fold apply_stmt (concat (map ops xs)) ?db) =
           (if k \<in> set xs then F (current_rows k ?db) else current_rows k ?db)"
    using Cons.IH[of ?db] Cons.prems by simp
  from Cons.prems(2) have "x \<notin> set xs" by simp
  with step rest show ?case by auto
qed

lemma current_rows_reconcile:
  fixes db R d b k
  assumes "iter_ok R"
  defines "s \<equiv> silver_salarie_dict (silver_salarie db)"
  defines "g \<equiv> gold_salarie_dict (salarie_histo db)"
  shows "current_rows k (fold apply_stmt (reconcile R db d b) db) =
           (if k \<in> dom s then upsert_rows R s g d b k (current_rows k db)
            else if k \<in> dom g then tombstone_rows R g d b k (current_rows k db)
            else current_rows k db)"
proof -
  have fs: "finite (dom s)" and fg: "finite (dom g - dom s)" by (simp_all add: s_def g_def)
  from assms(1) fs have a: "set (set_iter R (dom s)) = dom s" "distinct (set_iter R (dom s))"
    by (simp_all add: iter_ok_def)
  from assms(1) fg have b: "set (set_iter R (dom g - dom s)) = dom g - dom s"
    "distinct (set_iter R (dom g - dom s))"
    by (simp_all add: iter_ok_def)
  have ks: "keyed s" unfolding s_def by (rule keyed_silver)
  let ?A = "concat (map (reconcile_upsert R s g d b) (set_iter R (dom s)))"
  let ?B = "concat (map (reconcile_tombstone R g d b) (set_iter R (dom g - dom s)))"
  have A: "\<And>db'. current_rows k (fold apply_stmt ?A db') =
           (if k \<in> dom s then upsert_rows R s g d b k (current_rows k db') else current_rows k db')"
    using current_rows_concat[of "set_iter R (dom s)" k "reconcile_upsert R s g d b"
        "upsert_rows R s g d b k"] current_rows_upsert[OF ks] a by simp
  have B: "\<And>db'. current_rows k (fold apply_stmt ?B db') =
           (if k \<in> dom g - dom s then tombstone_rows R g d b k (current_rows k db')
            else current_rows k db')"
    using current_rows_concat[of "set_iter R (dom g - dom s)" k "reconcile_tombstone R g d b"
        "tombstone_rows R g d b k"] current_rows_tombstone b by simp
  have "reconcile R db d b = ?A @ ?B"
    by (simp add: reconcile_def Let_def s_def g_def)
  then show ?thesis by (simp add: A B)
qed

text \<open>Invariant I1: at most one row per key has \<open>is_current = true\<close>.\<close>

definition at_most_one_current :: "salarie_histo_row list \<Rightarrow> bool" where
  "at_most_one_current rows = (\<forall>k. rowcount_salarie k rows \<le> 1)"

lemma gold_None_iff:
  "gold_salarie_dict (salarie_histo db) k = None \<longleftrightarrow> current_rows k db = []"
  by (simp add: gold_last)

lemma reconcile_keeps_I1:
  assumes "iter_ok R" and "at_most_one_current (salarie_histo db)"
  shows "at_most_one_current (salarie_histo (fold apply_stmt (reconcile R db d b) db))"
  unfolding at_most_one_current_def
proof
  fix k
  let ?s = "silver_salarie_dict (silver_salarie db)"
  let ?g = "gold_salarie_dict (salarie_histo db)"
  have old: "length (current_rows k db) \<le> 1"
    using assms(2) by (simp add: at_most_one_current_def rowcount_current_rows)
  have none: "?g k = None \<Longrightarrow> current_rows k db = []"
    by (simp add: gold_None_iff)
  have up: "length (upsert_rows R ?s ?g d b k (current_rows k db)) \<le> 1"
    using old none by (auto simp: upsert_rows_def split: option.splits)
  have tb: "length (tombstone_rows R ?g d b k (current_rows k db)) \<le> 1"
    using old by (auto simp: tombstone_rows_def split: option.splits)
  show "rowcount_salarie k (salarie_histo (fold apply_stmt (reconcile R db d b) db)) \<le> 1"
    unfolding rowcount_current_rows current_rows_reconcile[OF assms(1)]
    using up tb old by simp
qed

lemma planned_keeps_I1:
  assumes "iter_ok R" and "at_most_one_current (salarie_histo db)"
  shows "at_most_one_current (salarie_histo (fold apply_stmt (planned R ds d db) db))"
  using assms reconcile_keeps_I1[OF assms]
  by (simp add: planned_def split: list.splits)

lemma example_I1: "at_most_one_current (salarie_histo example_db)"
  by (simp add: at_most_one_current_def rowcount_salarie_def example_db_def)

lemma apply_stmt_inputs:
  "silver_salarie (apply_stmt x db) = silver_salarie db \<and>
   batch_run (apply_stmt x db) = batch_run db"
  by (cases x) simp_all

lemma fold_apply_stmt_inputs:
  "silver_salarie (fold apply_stmt ops db) = silver_salarie db \<and>
   batch_run (fold apply_stmt ops db) = batch_run db"
  by (induction ops arbitrary: db) (simp_all add: apply_stmt_inputs del: apply_stmt.simps)

lemma reconcile_again:
  assumes "iter_ok R"
  shows "reconcile R (fold apply_stmt (reconcile R db d b) db) d' b' = []"
proof -
  let ?db1 = "fold apply_stmt (reconcile R db d b) db"
  let ?s = "silver_salarie_dict (silver_salarie db)"
  let ?g = "gold_salarie_dict (salarie_histo db)"
  let ?g1 = "gold_salarie_dict (salarie_histo ?db1)"
  have s1: "silver_salarie_dict (silver_salarie ?db1) = ?s"
    by (simp add: fold_apply_stmt_inputs)
  have up: "reconcile_upsert R ?s ?g1 d' b' k = []" for k
  proof (cases "?s k")
    case None
    then show ?thesis by (simp add: reconcile_upsert_def)
  next
    case (Some row)
    then have in_s: "k \<in> dom ?s" by auto
    have cr: "current_rows k ?db1 = upsert_rows R ?s ?g d b k (current_rows k db)"
      by (simp add: current_rows_reconcile[OF assms] in_s)
    show ?thesis
    proof (cases "?g k")
      case None
      then have "current_rows k ?db1 = current_rows k db @ [salarie_version R row d b False]"
        using cr Some by (simp add: upsert_rows_def)
      then have "?g1 k = Some (current_entry (salarie_version R row d b False))"
        by (simp add: gold_last[of ?db1])
      then show ?thesis
        using Some
        by (simp add: reconcile_upsert_def current_entry_def salarie_version_def
            salarie_fingerprint_def)
    next
      case g: (Some cur)
      show ?thesis
      proof (cases "sc_record_hash cur \<noteq> salarie_fingerprint R row \<or> sc_is_deleted cur")
        case True
        then have "current_rows k ?db1 = [salarie_version R row d b False]"
          using cr Some g by (simp add: upsert_rows_def)
        then have "?g1 k = Some (current_entry (salarie_version R row d b False))"
          by (simp add: gold_last[of ?db1])
        then show ?thesis
          using Some
          by (simp add: reconcile_upsert_def current_entry_def salarie_version_def
              salarie_fingerprint_def)
      next
        case False
        then have "current_rows k ?db1 = current_rows k db"
          using cr Some g by (simp add: upsert_rows_def)
        then have "?g1 k = ?g k"
          by (simp add: gold_last[of ?db1] gold_last[of db])
        then show ?thesis
          using Some g False by (simp add: reconcile_upsert_def)
      qed
    qed
  qed
  have tb: "reconcile_tombstone R ?g1 d' b' k = []" if "k \<notin> dom ?s" for k
  proof (cases "?g k")
    case None
    then have "current_rows k ?db1 = current_rows k db"
      using that by (simp add: current_rows_reconcile[OF assms] domIff)
    then have "?g1 k = ?g k"
      by (simp add: gold_last[of ?db1] gold_last[of db])
    then show ?thesis using None by (simp add: reconcile_tombstone_def)
  next
    case (Some cur)
    then have cr: "current_rows k ?db1 = tombstone_rows R ?g d b k (current_rows k db)"
      using that by (simp add: current_rows_reconcile[OF assms] domIff)
    show ?thesis
    proof (cases "sc_is_deleted cur")
      case True
      then have "current_rows k ?db1 = current_rows k db"
        using cr Some by (simp add: tombstone_rows_def)
      then have "?g1 k = ?g k"
        by (simp add: gold_last[of ?db1] gold_last[of db])
      then show ?thesis using Some True by (simp add: reconcile_tombstone_def)
    next
      case False
      let ?t = "salarie_version R
                  \<lparr>sr_ref_salarie = k, sr_nni = sc_nni cur, sr_nom = sc_nom cur,
                   sr_prenom = sc_prenom cur\<rparr> d b True"
      have "current_rows k ?db1 = [?t]"
        using cr Some False by (simp add: tombstone_rows_def)
      then have "?g1 k = Some (current_entry ?t)"
        by (simp add: gold_last[of ?db1])
      then show ?thesis
        by (simp add: reconcile_tombstone_def current_entry_def salarie_version_def)
    qed
  qed
  have A: "concat (map (reconcile_upsert R ?s ?g1 d' b') (set_iter R (dom ?s))) = []"
    by (simp add: up)
  have fin: "finite (dom ?g1 - dom ?s)" by simp
  with assms have "set (set_iter R (dom ?g1 - dom ?s)) = dom ?g1 - dom ?s"
    by (simp add: iter_ok_def)
  then have B: "concat (map (reconcile_tombstone R ?g1 d' b') (set_iter R (dom ?g1 - dom ?s))) = []"
    using tb by auto
  have "reconcile R ?db1 d' b' =
          concat (map (reconcile_upsert R ?s ?g1 d' b') (set_iter R (dom ?s))) @
          concat (map (reconcile_tombstone R ?g1 d' b') (set_iter R (dom ?g1 - dom ?s)))"
    unfolding reconcile_def[of R ?db1 d' b'] Let_def s1 ..
  then show ?thesis unfolding A B by simp
qed

lemma planned_again:
  assumes "iter_ok R" and "success_batches ds d (batch_run db) \<noteq> []"
  shows "planned R ds' d' (fold apply_stmt (planned R ds d db) db) = []"
proof -
  obtain b bs where b: "success_batches ds d (batch_run db) = b # bs"
    using assms(2) by (cases "success_batches ds d (batch_run db)") auto
  then have p: "planned R ds d db = reconcile R db d b" by (simp add: planned_def)
  show ?thesis
    unfolding p planned_def[of R ds' d'] reconcile_again[OF assms(1)]
    by (simp split: list.splits)
qed

lemma main_salarie_Inr_batch:
  assumes "fst (main_salarie R ds d c) = Inr u"
  shows "success_batches ds d (batch_run (session c)) \<noteq> []"
proof
  assume "success_batches ds d (batch_run (session c)) = []"
  from main_salarie_no_batch[OF this, of R] assms show False by simp
qed

lemma example_success:
  "fst (main_salarie example_runtime ''salarie'' (Date 2024 9 2) (get_conn example_db [])) = Inr ()"
  using main_salarie_success[OF iter_ok_example, of "''salarie''" "Date 2024 9 2" example_db]
  by (simp add: example_batches)

subsection \<open>What a write may change\<close>

definition closed_or_same :: "date \<Rightarrow> salarie_histo_row \<Rightarrow> salarie_histo_row \<Rightarrow> bool" where
  "closed_or_same d r r' =
     (r' = r \<or> (sh_is_current r \<and> r' = r\<lparr>sh_valid_to := d, sh_is_current := False\<rparr>))"

definition frame :: "date \<Rightarrow> salarie_histo_row list \<Rightarrow> salarie_histo_row list \<Rightarrow> bool" where
  "frame d old new =
     (length old \<le> length new \<and> (\<forall>i < length old. closed_or_same d (old ! i) (new ! i)))"

lemma frame_refl: "frame d t t"
  by (simp add: frame_def closed_or_same_def)

lemma closed_or_same_trans:
  "closed_or_same d a b \<Longrightarrow> closed_or_same d b c \<Longrightarrow> closed_or_same d a c"
  by (auto simp: closed_or_same_def)

lemma frame_trans:
  assumes "frame d a b" and "frame d b c"
  shows "frame d a c"
  unfolding frame_def
proof (intro conjI allI impI)
  show "length a \<le> length c" using assms by (simp add: frame_def)
next
  fix i assume i: "i < length a"
  then have "i < length b" using assms(1) by (simp add: frame_def)
  with assms i show "closed_or_same d (a ! i) (c ! i)"
    unfolding frame_def by (blast intro: closed_or_same_trans)
qed

lemma frame_close: "frame d t (map (update_salarie k d) t)"
  by (simp add: frame_def closed_or_same_def update_salarie_def)

lemma frame_insert: "frame d t (t @ [v])"
  by (simp add: frame_def closed_or_same_def nth_append)

definition closes_at :: "date \<Rightarrow> stmt \<Rightarrow> bool" where
  "closes_at d x = (case x of CloseSalarie k d' \<Rightarrow> d' = d | _ \<Rightarrow> True)"

lemma frame_apply_stmt:
  "closes_at d x \<Longrightarrow> frame d (salarie_histo db) (salarie_histo (apply_stmt x db))"
  by (cases x) (simp_all add: closes_at_def frame_close frame_insert frame_refl)

lemma frame_fold:
  "\<forall>x \<in> set ops. closes_at d x \<Longrightarrow>
   frame d (salarie_histo db) (salarie_histo (fold apply_stmt ops db))"
proof (induction ops arbitrary: db)
  case Nil
  then show ?case by (simp add: frame_refl)
next
  case (Cons x ops)
  have "frame d (salarie_histo db) (salarie_histo (apply_stmt x db))"
    using Cons.prems by (simp add: frame_apply_stmt)
  moreover have "frame d (salarie_histo (apply_stmt x db))
      (salarie_histo (fold apply_stmt ops (apply_stmt x db)))"
    using Cons by simp
  ultimately have "frame d (salarie_histo db)
      (salarie_histo (fold apply_stmt ops (apply_stmt x db)))"
    by (rule frame_trans)
  then show ?case by (simp del: apply_stmt.simps)
qed

lemma reconcile_closes_at: "\<forall>x \<in> set (reconcile R db d b). closes_at d x"
  by (auto simp: reconcile_def Let_def reconcile_upsert_def reconcile_tombstone_def closes_at_def
      split: option.splits if_splits)

lemma planned_closes_at: "\<forall>x \<in> set (planned R ds d db). closes_at d x"
  using reconcile_closes_at[of R db d] by (auto simp: planned_def split: list.splits)

lemma example_history_after:
  "salarie_histo (committed (snd (main_salarie example_runtime ''salarie'' (Date 2024 9 2)
     (get_conn example_db [])))) =
   [\<lparr>sh_ref_salarie = ''S2'', sh_nni = Some ''222'', sh_nom = Some ''Martin'',
      sh_prenom = None, sh_valid_from = Date 2024 9 1, sh_valid_to = Date 2024 9 2,
      sh_is_current = False, sh_is_deleted = False,
      sh_record_hash = ''222||Martin||||False'', sh_batch_id = 5\<rparr>,
    example_version,
    \<lparr>sh_ref_salarie = ''S2'', sh_nni = Some ''222'', sh_nom = Some ''Martin'',
      sh_prenom = None, sh_valid_from = Date 2024 9 2, sh_valid_to = open_ended,
      sh_is_current = True, sh_is_deleted = True,
      sh_record_hash = ''222||Martin||||True'', sh_batch_id = 7\<rparr>]"
proof -
  have "committed (snd (main_salarie example_runtime ''salarie'' (Date 2024 9 2)
     (get_conn example_db []))) =
     fold apply_stmt (planned example_runtime ''salarie'' (Date 2024 9 2) example_db) example_db"
    using main_salarie_success[OF iter_ok_example, of "''salarie''" "Date 2024 9 2" example_db]
    by (simp add: example_batches)
  then show ?thesis
    unfolding example_planned
    by (simp add: example_db_def update_salarie_def example_version_def)
qed

text \<open>The number of rows that differ between a table and its update.\<close>

definition rows_changed :: "salarie_histo_row list \<Rightarrow> salarie_histo_row list \<Rightarrow> nat" where
  "rows_changed old new = length (filter (\<lambda>(r, r'). r' \<noteq> r) (zip old new))"

lemma update_salarie_changes:
  "update_salarie k d r \<noteq> r \<longleftrightarrow> sh_ref_salarie r = k \<and> sh_is_current r"
proof (cases "sh_ref_salarie r = k \<and> sh_is_current r")
  case True
  then have "sh_is_current (update_salarie k d r) \<noteq> sh_is_current r"
    by (simp add: update_salarie_def)
  then have "update_salarie k d r \<noteq> r" by auto
  with True show ?thesis by simp
next
  case False
  then show ?thesis by (auto simp: update_salarie_def)
qed

lemma rows_changed_close:
  "rows_changed t (map (update_salarie k d) t) = rowcount_salarie k t"
  by (induction t) (simp_all add: rows_changed_def rowcount_salarie_def update_salarie_changes)

lemma rowcount_after_close: "rowcount_salarie k (map (update_salarie k d) t) = 0"
  by (simp add: rowcount_salarie_def filter_update_salarie)

lemma close_current_ok:
  assumes "plan c = []"
  shows "close_current k d c =
           (Inr (), c\<lparr>session := apply_stmt (CloseSalarie k d) (session c),
                       executed := executed c @ [CloseSalarie k d]\<rparr>)"
  using assms by (simp add: close_current_def execute_write_def bind_def execute_def)

lemma rowcount_one:
  fixes db :: database
  assumes "at_most_one_current (salarie_histo db)"
    and "k \<in> dom (gold_salarie_dict (salarie_histo db))"
  shows "rowcount_salarie k (salarie_histo db) = 1"
proof -
  from assms(2) have "current_rows k db \<noteq> []"
    using gold_None_iff[of db k] by auto
  then have "0 < length (current_rows k db)" by simp
  moreover have "length (current_rows k db) \<le> 1"
    using assms(1) by (simp add: at_most_one_current_def rowcount_current_rows)
  ultimately have "length (current_rows k db) = 1" by linarith
  then show ?thesis by (simp add: rowcount_current_rows)
qed

text \<open>A history that violates I1: two current rows for \<open>S1\<close>.\<close>

definition corrupt_db :: database where
  "corrupt_db =
     \<lparr>batch_run = [\<lparr>br_batch_id = 7, br_dataset = ''salarie'', br_as_of_date = Date 2024 9 2,
                     br_status = ''SUCCESS''\<rparr>],
      silver_salarie = [(Some ''S1'', Some ''111'', Some ''Durand'', Some ''Anne'')],
      silver_paiement = [], silver_demande_avance = [],
      salarie_histo =
        [\<lparr>sh_ref_salarie = ''S1'', sh_nni = Some ''111'', sh_nom = Some ''Durant'',
          sh_prenom = Some ''Anne'', sh_valid_from = Date 2024 8 1, sh_valid_to = open_ended,
          sh_is_current = True, sh_is_deleted = False,
          sh_record_hash = ''111||Durant||Anne||False'', sh_batch_id = 3\<rparr>,
         \<lparr>sh_ref_salarie = ''S1'', sh_nni = Some ''111'', sh_nom = Some ''Durand'',
          sh_prenom = Some ''Anna'', sh_valid_from = Date 2024 9 1, sh_valid_to = open_ended,
          sh_is_current = True, sh_is_deleted = False,
          sh_record_hash = ''111||Durand||Anna||False'', sh_batch_id = 5\<rparr>],
      paiement_histo = [], demande_avance_histo = []\<rparr>"

lemma corrupt_planned:
  "planned example_runtime ''salarie'' (Date 2024 9 2) corrupt_db =
     [CloseSalarie ''S1'' (Date 2024 9 2), InsertSalarie example_version]"
  by (simp add: planned_def success_batches_def corrupt_db_def reconcile_def
      silver_salarie_dict_def gold_salarie_dict_def str_text_def
      set_iter_singleton[OF iter_ok_example] set_iter_empty[OF iter_ok_example]
      reconcile_upsert_def reconcile_tombstone_def salarie_fingerprint_def
      salarie_version_def md5_hash_def canonical_def of_text_def example_runtime_def
      example_version_def)

lemma corrupt_batches:
  "success_batches ''salarie'' (Date 2024 9 2) (batch_run corrupt_db) \<noteq> []"
  by (simp add: success_batches_def corrupt_db_def)

lemma example_gold_S2: "''S2'' \<in> dom (gold_salarie_dict (salarie_histo example_db))"
  by (simp add: example_db_def gold_salarie_dict_def)

subsection \<open>The canonical string\<close>

text \<open>
  A collision of the digest on two strings, and a string without the character of the
  separator.
\<close>

definition collision :: "runtime \<Rightarrow> string \<Rightarrow> string \<Rightarrow> bool" where
  "collision R s t = (s \<noteq> t \<and> md5_hexdigest R s = md5_hexdigest R t)"

definition bar_free :: "string \<Rightarrow> bool" where
  "bar_free s = (CHR ''|'' \<notin> set s)"

lemma takeWhile_bar:
  "CHR ''|'' \<notin> set x \<Longrightarrow> takeWhile (\<lambda>c. c \<noteq> CHR ''|'') (x @ CHR ''|'' # r) = x"
  by (induction x) auto

lemma split_at_bar:
  assumes "bar_free x" "bar_free y" "x @ ''||'' @ r = y @ ''||'' @ r'"
  shows "x = y \<and> r = r'"
proof -
  have "takeWhile (\<lambda>c. c \<noteq> CHR ''|'') (x @ ''||'' @ r) = x"
    using assms(1) by (simp add: bar_free_def takeWhile_bar)
  moreover have "takeWhile (\<lambda>c. c \<noteq> CHR ''|'') (y @ ''||'' @ r') = y"
    using assms(2) by (simp add: bar_free_def takeWhile_bar)
  ultimately have "x = y" using assms(3) by simp
  with assms(3) show ?thesis by simp
qed

lemma join_inj:
  assumes "length xs = length ys"
    and "\<forall>x \<in> set xs. bar_free x" and "\<forall>y \<in> set ys. bar_free y"
    and "join ''||'' xs = join ''||'' ys"
  shows "xs = ys"
  using assms
proof (induction xs ys rule: list_induct2)
  case Nil
  then show ?case by simp
next
  case (Cons x xs y ys)
  show ?case
  proof (cases xs)
    case Nil
    with Cons.hyps have "ys = []" by simp
    with Nil Cons.prems show ?thesis by simp
  next
    case xs: (Cons x2 xs')
    with Cons.hyps obtain y2 ys' where ys: "ys = y2 # ys'" by (cases ys) auto
    from Cons.prems(3) xs ys
    have "x @ ''||'' @ join ''||'' xs = y @ ''||'' @ join ''||'' ys" by simp
    with Cons.prems(1,2) have "x = y \<and> join ''||'' xs = join ''||'' ys"
      by (intro split_at_bar) simp_all
    with Cons show ?thesis by simp
  qed
qed

section \<open>A version with a null amount\<close>

definition null_amount_db :: database where
  "null_amount_db =
     \<lparr>batch_run =
        [\<lparr>br_batch_id = 1, br_dataset = ''paiement'', br_as_of_date = Date 2024 9 2,
          br_status = ''SUCCESS''\<rparr>,
         \<lparr>br_batch_id = 2, br_dataset = ''paiement'', br_as_of_date = Date 2024 9 10,
          br_status = ''SUCCESS''\<rparr>,
         \<lparr>br_batch_id = 3, br_dataset = ''demande_avance'', br_as_of_date = Date 2024 9 2,
          br_status = ''SUCCESS''\<rparr>,
         \<lparr>br_batch_id = 4, br_dataset = ''demande_avance'', br_as_of_date = Date 2024 9 10,
          br_status = ''SUCCESS''\<rparr>],
      silver_salarie = [],
      silver_paiement = [(Some ''P1'', Some ''S1'', None, Some ''FR76'', None, Some ''D9'')],
      silver_demande_avance = [(Some ''D1'', Some ''S1'', None)],
      salarie_histo = [], paiement_histo = [], demande_avance_histo = []\<rparr>"

definition null_paiement :: "runtime \<Rightarrow> paiement_histo_row" where
  "null_paiement R =
     \<lparr>ph_ref_paiement = ''P1'', ph_ref_salarie = Some ''S1'', ph_montant_paye = None,
      ph_rib_salarie = Some ''FR76'', ph_date_paiement = None,
      ph_ref_demande_avance = Some ''D9'', ph_valid_from = Date 2024 9 2,
      ph_valid_to = open_ended, ph_is_current = True, ph_is_deleted = False,
      ph_record_hash = md5_hexdigest R ''S1||||FR76||||D9||False'', ph_batch_id = 1\<rparr>"

definition null_demande :: "runtime \<Rightarrow> demande_avance_histo_row" where
  "null_demande R =
     \<lparr>dh_ref_demande_avance = ''D1'', dh_ref_salarie = Some ''S1'', dh_montant_demande = None,
      dh_montant_paye = None, dh_date_paiement = None, dh_ref_paiement = None,
      dh_valid_from = Date 2024 9 2, dh_valid_to = open_ended, dh_is_current = True,
      dh_is_deleted = False, dh_record_hash = md5_hexdigest R ''S1||||||||||False'',
      dh_batch_id = 3\<rparr>"

lemmas paiement_eval =
  main_paiement_def paiement_run_def try_rollback_def bind_def Let_def
  get_latest_batch_id_def execute_def get_conn_def success_batches_def
  fetch_silver_paiement_def fetch_gold_current_paiement_def
  silver_paiement_dict_def gold_paiement_dict_def str_text_def
  upsert_paiement_def tombstone_paiement_def insert_version_paiement_def
  close_current_paiement_def execute_write_def paiement_hash_def md5_hash_def canonical_def
  of_text_def of_float_def of_date_def py_float_def return_def raise_def commit_def
  rollback_def update_paiement_def

lemma paiement_first_run:
  assumes "iter_ok R"
  shows "main_paiement R ''paiement'' (Date 2024 9 2) (get_conn null_amount_db []) =
           (Inr (),
            \<lparr>committed = null_amount_db\<lparr>paiement_histo := [null_paiement R]\<rparr>,
             session = null_amount_db\<lparr>paiement_histo := [null_paiement R]\<rparr>,
             plan = [], executed = [InsertPaiement (null_paiement R)]\<rparr>)"
  by (simp add: paiement_eval null_amount_db_def null_paiement_def
      set_iter_singleton[OF assms] set_iter_empty[OF assms])

lemma paiement_second_run:
  assumes "iter_ok R"
  shows "main_paiement R ''paiement'' (Date 2024 9 10)
           (get_conn (null_amount_db\<lparr>paiement_histo := [null_paiement R],
                                      silver_paiement := []\<rparr>) []) =
           (Inl TypeError,
            \<lparr>committed = null_amount_db\<lparr>paiement_histo := [null_paiement R],
                                        silver_paiement := []\<rparr>,
             session = null_amount_db\<lparr>paiement_histo := [null_paiement R],
                                      silver_paiement := []\<rparr>,
             plan = [], executed = [ClosePaiement ''P1'' (Date 2024 9 10)]\<rparr>)"
  by (simp add: paiement_eval null_amount_db_def null_paiement_def
      set_iter_singleton[OF assms] set_iter_empty[OF assms])

lemmas demande_eval =
  main_demande_def demande_run_def try_rollback_def bind_def Let_def
  get_latest_batch_id_def execute_def get_conn_def success_batches_def
  fetch_silver_demande_with_paiement_def fetch_gold_current_demande_def
  demande_left_join_paiement_def
  silver_demande_dict_def gold_demande_dict_def str_text_def
  upsert_demande_def tombstone_demande_def insert_version_demande_def
  close_current_demande_def execute_write_def demande_hash_def md5_hash_def canonical_def
  of_text_def of_float_def of_date_def py_float_def return_def raise_def commit_def
  rollback_def update_demande_def

lemma demande_first_run:
  assumes "iter_ok R"
  shows "main_demande R ''demande_avance'' (Date 2024 9 2) (get_conn null_amount_db []) =
           (Inr (),
            \<lparr>committed = null_amount_db\<lparr>demande_avance_histo := [null_demande R]\<rparr>,
             session = null_amount_db\<lparr>demande_avance_histo := [null_demande R]\<rparr>,
             plan = [], executed = [InsertDemande (null_demande R)]\<rparr>)"
  by (simp add: demande_eval null_amount_db_def null_demande_def
      set_iter_singleton[OF assms] set_iter_empty[OF assms])

lemma demande_second_run:
  assumes "iter_ok R"
  shows "main_demande R ''demande_avance'' (Date 2024 9 10)
           (get_conn (null_amount_db\<lparr>demande_avance_histo := [null_demande R],
                                      silver_demande_avance := []\<rparr>) []) =
           (Inl TypeError,
            \<lparr>committed = null_amount_db\<lparr>demande_avance_histo := [null_demande R],
                                        silver_demande_avance := []\<rparr>,
             session = null_amount_db\<lparr>demande_avance_histo := [null_demande R],
                                      silver_demande_avance := []\<rparr>,
             plan = [], executed = [CloseDemande ''D1'' (Date 2024 9 10)]\<rparr>)"
  by (simp add: demande_eval null_amount_db_def null_demande_def
      set_iter_singleton[OF assms] set_iter_empty[OF assms])

definition vanished_paiement_db :: "runtime \<Rightarrow> database" where
  "vanished_paiement_db R =
     null_amount_db\<lparr>paiement_histo := [null_paiement R], silver_paiement := []\<rparr>"

section \<open>The claims\<close>

text \<open>
  Claim C8 (mandatory provenance). When \<open>etl.batch_run\<close> has no \<open>SUCCESS\<close> row for the
  dataset and the date, the run fails at the batch lookup (with \<open>RuntimeError\<close>, or with
  the storage error of the lookup itself): one statement only has reached the database,
  no write was executed and the database is as before. When there is such a row, the
  greatest such \<open>batch_id\<close> is the one stamped on every version the run inserts.
\<close>

theorem provenance_precondition:
  fixes R ds d db p
  defines "res \<equiv> main_salarie R ds d (get_conn db p)"
  shows "case success_batches ds d (batch_run db) of
           [] \<Rightarrow>
             fst res = Inl (if p \<noteq> [] \<and> hd p then OperationalError else RuntimeError) \<and>
             executed (snd res) = [] \<and> committed (snd res) = db \<and> session (snd res) = db \<and>
             plan (snd res) = drop 1 p
         | b # bs \<Rightarrow>
             (\<forall>v. InsertSalarie v \<in> set (executed (snd res)) \<longrightarrow> sh_batch_id v = b) \<and>
             (\<exists>row \<in> set (batch_run db). br_batch_id row = b \<and> br_dataset row = ds \<and>
                br_as_of_date row = d \<and> br_status row = ''SUCCESS'') \<and>
             (\<forall>row \<in> set (batch_run db). br_dataset row = ds \<and> br_as_of_date row = d \<and>
                br_status row = ''SUCCESS'' \<longrightarrow> br_batch_id row \<le> b)"
proof (cases "success_batches ds d (batch_run db)")
  case Nil
  then have "success_batches ds d (batch_run (session (get_conn db p))) = []"
    by (simp add: get_conn_def)
  from main_salarie_no_batch[OF this, of R] Nil show ?thesis
    by (simp add: res_def get_conn_def rollback_def)
next
  case (Cons b bs)
  have "set (executed (snd res)) \<subseteq> set (reconcile R db d b)"
    using main_salarie_executed_subset[of R ds d "get_conn db p"] Cons
    by (simp add: res_def get_conn_def planned_def)
  then have "\<forall>v. InsertSalarie v \<in> set (executed (snd res)) \<longrightarrow> sh_batch_id v = b"
    using reconcile_batch_id by blast
  with success_batches_head[OF Cons] Cons show ?thesis by simp
qed

theorem provenance_precondition_witness:
  "success_batches ''salarie'' (Date 2024 9 2) (batch_run example_db) = [7] \<and>
   (\<exists>v. InsertSalarie v \<in> set (executed (snd (main_salarie example_runtime ''salarie''
           (Date 2024 9 2) (get_conn example_db [])))) \<and> sh_batch_id v = 7 \<and>
         sh_ref_salarie v = ''S1'') \<and>
   (\<exists>row \<in> set (batch_run example_db). br_batch_id row = 7 \<and> br_status row = ''SUCCESS'')"
proof -
  let ?res = "main_salarie example_runtime ''salarie'' (Date 2024 9 2) (get_conn example_db [])"
  let ?v = "\<lparr>sh_ref_salarie = ''S1'', sh_nni = Some ''111'', sh_nom = Some ''Durand'',
         sh_prenom = Some ''Anne'', sh_valid_from = Date 2024 9 2, sh_valid_to = open_ended,
         sh_is_current = True, sh_is_deleted = False,
         sh_record_hash = ''111||Durand||Anne||False'', sh_batch_id = 7\<rparr>"
  have e: "executed (snd ?res) = planned example_runtime ''salarie'' (Date 2024 9 2) example_db"
    using main_salarie_success[OF iter_ok_example, of "''salarie''" "Date 2024 9 2" example_db]
    by (simp add: example_batches)
  have m: "InsertSalarie ?v \<in> set (executed (snd ?res))"
    unfolding e example_planned by simp
  from provenance_precondition[where R = example_runtime and ds = "''salarie''"
      and d = "Date 2024 9 2" and db = example_db and p = "[]"]
  have t: "(\<forall>v. InsertSalarie v \<in> set (executed (snd ?res)) \<longrightarrow> sh_batch_id v = 7) \<and>
        (\<exists>row \<in> set (batch_run example_db). br_batch_id row = 7 \<and> br_dataset row = ''salarie'' \<and>
                br_as_of_date row = Date 2024 9 2 \<and> br_status row = ''SUCCESS'')"
    by (simp add: example_batches)
  from t m have "sh_batch_id ?v = 7" by blast
  with m have "\<exists>v. InsertSalarie v \<in> set (executed (snd ?res)) \<and> sh_batch_id v = 7 \<and>
         sh_ref_salarie v = ''S1''"
    by (intro exI[of _ ?v]) simp
  moreover from t have "\<exists>row \<in> set (batch_run example_db). br_batch_id row = 7 \<and> br_status row = ''SUCCESS''"
    by blast
  ultimately show ?thesis using example_batches by blast
qed

text \<open>
  Claim C6 (run atomicity). Whatever statements the database refuses, a run of \<open>main\<close>
  on a fresh connection ends in one of two ways: with an error, and then the durable state
  and the state of the connection are the database as it was before the run; or without
  one, and then the durable state is the database with every close and insert of the
  reconciliation applied, in order, and these are exactly the write statements executed.
\<close>

theorem run_atomicity:
  fixes R ds d db p
  defines "res \<equiv> main_salarie R ds d (get_conn db p)"
  shows "case fst res of
           Inl e \<Rightarrow> committed (snd res) = db \<and> session (snd res) = db
         | Inr u \<Rightarrow>
             committed (snd res) = fold apply_stmt (planned R ds d db) db \<and>
             session (snd res) = committed (snd res) \<and>
             executed (snd res) = planned R ds d db"
  using main_salarie_cases[of R ds d "get_conn db p"]
  by (cases "fst res") (simp_all add: res_def get_conn_def)

theorem run_atomicity_witness:
  "fst (main_salarie example_runtime ''salarie'' (Date 2024 9 2)
          (get_conn example_db [False, False, False, False, True])) = Inl OperationalError \<and>
   executed (snd (main_salarie example_runtime ''salarie'' (Date 2024 9 2)
          (get_conn example_db [False, False, False, False, True]))) =
     [InsertSalarie example_version] \<and>
   committed (snd (main_salarie example_runtime ''salarie'' (Date 2024 9 2)
          (get_conn example_db [False, False, False, False, True]))) = example_db \<and>
   session (snd (main_salarie example_runtime ''salarie'' (Date 2024 9 2)
          (get_conn example_db [False, False, False, False, True]))) = example_db"
  using run_atomicity[where R = example_runtime and ds = "''salarie''"
      and d = "Date 2024 9 2" and db = example_db and p = "[False, False, False, False, True]"]
  by (simp add: example_refused)

text \<open>
  Claim C1 (pass A, upsert). In a run that no storage error interrupts, for a key \<open>k\<close> of
  the source snapshot, the write statements about \<open>k\<close> are: one insert of a current,
  non-deleted version built from the source attributes with \<open>valid_from\<close> the as-of date,
  when \<open>k\<close> has no current version; a close of \<open>k\<close> followed by that insert, when the
  stored hash differs from the fingerprint of the source attributes with \<open>is_deleted =
  False\<close> or the current version is deleted; nothing otherwise.
\<close>

theorem upsert_classification:
  fixes R ds d db b bs k row
  assumes "iter_ok R" and "success_batches ds d (batch_run db) = b # bs"
    and "silver_salarie_dict (silver_salarie db) k = Some row"
  defines "res \<equiv> main_salarie R ds d (get_conn db [])"
  defines "new_hash \<equiv>
    md5_hash R [of_text (sr_nni row), of_text (sr_nom row), of_text (sr_prenom row), PBool False]"
  defines "version \<equiv>
    \<lparr>sh_ref_salarie = k, sh_nni = sr_nni row, sh_nom = sr_nom row, sh_prenom = sr_prenom row,
     sh_valid_from = d, sh_valid_to = open_ended, sh_is_current = True, sh_is_deleted = False,
     sh_record_hash = new_hash, sh_batch_id = b\<rparr>"
  shows "fst res = Inr () \<and>
         filter (\<lambda>x. stmt_key x = k) (executed (snd res)) =
           (case gold_salarie_dict (salarie_histo db) k of
              None \<Rightarrow> [InsertSalarie version]
            | Some cur \<Rightarrow>
                if sc_record_hash cur \<noteq> new_hash \<or> sc_is_deleted cur
                then [CloseSalarie k d, InsertSalarie version]
                else [])"
proof -
  have ok: "success_batches ds d (batch_run db) \<noteq> []" using assms(2) by simp
  from main_salarie_success[OF assms(1) ok]
  have r: "fst res = Inr ()" and e: "executed (snd res) = reconcile R db d b"
    by (simp_all add: res_def planned_def assms(2))
  have key: "sr_ref_salarie row = k"
    using keyed_silver[of "silver_salarie db"] assms(3) by (simp add: keyed_def)
  have v: "salarie_version R row d b False = version"
    by (simp add: salarie_version_def version_def new_hash_def key)
  have "filter (\<lambda>x. stmt_key x = k) (reconcile R db d b) =
          reconcile_upsert R (silver_salarie_dict (silver_salarie db))
            (gold_salarie_dict (salarie_histo db)) d b k"
    using reconcile_for_key[OF assms(1), of k db d b] assms(3) by auto
  then show ?thesis
    unfolding e using r assms(3)
    by (simp add: reconcile_upsert_def v salarie_fingerprint_def new_hash_def
        split: option.splits)
qed

theorem upsert_classification_witness:
  "iter_ok example_runtime \<and>
   success_batches ''salarie'' (Date 2024 9 2) (batch_run example_db) = [7] \<and>
   silver_salarie_dict (silver_salarie example_db) ''S1'' =
     Some \<lparr>sr_ref_salarie = ''S1'', sr_nni = Some ''111'', sr_nom = Some ''Durand'',
           sr_prenom = Some ''Anne''\<rparr> \<and>
   fst (main_salarie example_runtime ''salarie'' (Date 2024 9 2) (get_conn example_db [])) =
     Inr () \<and>
   filter (\<lambda>x. stmt_key x = ''S1'')
     (executed (snd (main_salarie example_runtime ''salarie'' (Date 2024 9 2)
        (get_conn example_db [])))) = [InsertSalarie example_version]"
  using upsert_classification[OF iter_ok_example example_batches example_silver]
    iter_ok_example example_batches example_silver
  by (simp add: example_gold_S1 example_version_def md5_hash_def canonical_def of_text_def
      example_runtime_def)

text \<open>
  Claim C3 (invariant I1). If every key has at most one row with \<open>is_current = true\<close> in
  the history table, then after one run of \<open>main\<close> (both passes, whatever the snapshot,
  whatever statements the database refuses) every key still has at most one such row in
  the durable history table.
\<close>

theorem invariant_I1_preserved:
  assumes "iter_ok R" and "at_most_one_current (salarie_histo db)"
  shows "at_most_one_current
           (salarie_histo (committed (snd (main_salarie R ds d (get_conn db p)))))"
  using main_salarie_cases[of R ds d "get_conn db p"] planned_keeps_I1[OF assms, of ds d] assms(2)
  by (simp add: get_conn_def split: if_splits)

theorem invariant_I1_preserved_witness:
  "iter_ok example_runtime \<and> at_most_one_current (salarie_histo example_db) \<and>
   at_most_one_current
     (salarie_histo (committed (snd (main_salarie example_runtime ''salarie'' (Date 2024 9 2)
        (get_conn example_db [])))))"
  using invariant_I1_preserved[OF iter_ok_example example_I1, of "''salarie''" "Date 2024 9 2" "[]"]
    iter_ok_example example_I1
  by simp

text \<open>
  Claim C4 (idempotence). After a run of \<open>main\<close> that completed, a second run on the
  database it committed (the snapshot tables are not written by a run, so the snapshot is
  unchanged) executes no write statement: no close and no insert, for any key, whatever
  the as-of date, the dataset and the refused statements of the second run.
\<close>

theorem reconciliation_idempotent:
  assumes "iter_ok R" and "fst (main_salarie R ds d (get_conn db p)) = Inr ()"
  shows "executed (snd (main_salarie R ds' d'
           (get_conn (committed (snd (main_salarie R ds d (get_conn db p)))) p'))) = []"
proof -
  let ?db1 = "committed (snd (main_salarie R ds d (get_conn db p)))"
  have batch: "success_batches ds d (batch_run db) \<noteq> []"
    using main_salarie_Inr_batch[OF assms(2)] by (simp add: get_conn_def)
  have db1: "?db1 = fold apply_stmt (planned R ds d db) db"
    using main_salarie_cases[of R ds d "get_conn db p"] assms(2) by (simp add: get_conn_def)
  have "planned R ds' d' ?db1 = []"
    unfolding db1 by (rule planned_again[OF assms(1) batch])
  with main_salarie_cases[of R ds' d' "get_conn ?db1 p'"] show ?thesis
    by (simp add: get_conn_def split: if_splits)
qed

theorem reconciliation_idempotent_witness:
  "iter_ok example_runtime \<and>
   fst (main_salarie example_runtime ''salarie'' (Date 2024 9 2) (get_conn example_db [])) =
     Inr () \<and>
   executed (snd (main_salarie example_runtime ''salarie'' (Date 2024 9 2)
     (get_conn (committed (snd (main_salarie example_runtime ''salarie'' (Date 2024 9 2)
        (get_conn example_db [])))) []))) = []"
  using reconciliation_idempotent[OF iter_ok_example example_success,
      of "''salarie''" "Date 2024 9 2" "[]"]
    iter_ok_example example_success
  by simp

text \<open>
  Claim C10 (frame of the writer). After a run of \<open>main\<close>, whatever its outcome, every
  row the history table had is still there, at its place: either unchanged, or it was
  current and only its \<open>valid_to\<close> (now the as-of date) and \<open>is_current\<close> (now false)
  differ. So the key, the business attributes, \<open>valid_from\<close>, \<open>is_deleted\<close>,
  \<open>record_hash\<close> and \<open>batch_id\<close> of a persisted version never change, and no row is
  deleted; the other rows of the table are new ones.
\<close>

theorem writer_frame:
  fixes R ds d db p
  defines "old \<equiv> salarie_histo db"
  defines "new \<equiv> salarie_histo (committed (snd (main_salarie R ds d (get_conn db p))))"
  shows "length old \<le> length new \<and>
         (\<forall>i < length old.
            (new ! i = old ! i \<or>
             sh_is_current (old ! i) \<and>
             new ! i = (old ! i)\<lparr>sh_valid_to := d, sh_is_current := False\<rparr>) \<and>
            sh_ref_salarie (new ! i) = sh_ref_salarie (old ! i) \<and>
            sh_nni (new ! i) = sh_nni (old ! i) \<and>
            sh_nom (new ! i) = sh_nom (old ! i) \<and>
            sh_prenom (new ! i) = sh_prenom (old ! i) \<and>
            sh_valid_from (new ! i) = sh_valid_from (old ! i) \<and>
            sh_is_deleted (new ! i) = sh_is_deleted (old ! i) \<and>
            sh_record_hash (new ! i) = sh_record_hash (old ! i) \<and>
            sh_batch_id (new ! i) = sh_batch_id (old ! i))"
proof -
  have "new = old \<or> new = salarie_histo (fold apply_stmt (planned R ds d db) db)"
    using main_salarie_cases[of R ds d "get_conn db p"]
    by (auto simp: new_def old_def get_conn_def split: if_splits)
  then have f: "frame d old new"
    using frame_fold[OF planned_closes_at[of R ds d db]] frame_refl[of d old]
    by (auto simp: old_def)
  then have "length old \<le> length new" by (simp add: frame_def)
  moreover have "\<forall>i < length old. closed_or_same d (old ! i) (new ! i)"
    using f by (simp add: frame_def)
  ultimately show ?thesis
    unfolding closed_or_same_def by auto
qed

theorem writer_frame_witness:
  "0 < length (salarie_histo example_db) \<and>
   sh_is_current (salarie_histo example_db ! 0) \<and>
   salarie_histo (committed (snd (main_salarie example_runtime ''salarie'' (Date 2024 9 2)
     (get_conn example_db [])))) ! 0 =
     (salarie_histo example_db ! 0)\<lparr>sh_valid_to := Date 2024 9 2, sh_is_current := False\<rparr> \<and>
   sh_record_hash (salarie_histo (committed (snd (main_salarie example_runtime ''salarie''
     (Date 2024 9 2) (get_conn example_db [])))) ! 0) =
     sh_record_hash (salarie_histo example_db ! 0) \<and>
   length (salarie_histo (committed (snd (main_salarie example_runtime ''salarie''
     (Date 2024 9 2) (get_conn example_db []))))) = 3"
  using writer_frame[where R = example_runtime and ds = "''salarie''" and d = "Date 2024 9 2"
      and db = example_db and p = "[]"]
  unfolding example_history_after
  by (simp add: example_db_def)

text \<open>
  Claim C5, as amended. \<open>close_current\<close> does not look at the number of rows its
  \<^verbatim>\<open>update\<close> matched. Without a storage error it succeeds for every key and every
  history: it closes every current row of the key, as many rows change as the
  \<^verbatim>\<open>update\<close> matches, and none of the key is current afterwards. The count is one
  when the history has at most one current row per key and the key is one of the loaded
  current versions. A run with a resolvable batch and no storage error completes,
  whatever the history.
\<close>

theorem close_updates_every_current_row:
  fixes R ds d db c k
  assumes "iter_ok R" and "success_batches ds d (batch_run db) \<noteq> []" and "plan c = []"
  defines "old \<equiv> salarie_histo (session c)"
  defines "new \<equiv> salarie_histo (session (snd (close_current k d c)))"
  shows "fst (close_current k d c) = Inr () \<and>
         new = map (update_salarie k d) old \<and>
         rows_changed old new = rowcount_salarie k old \<and>
         rowcount_salarie k new = 0 \<and>
         (at_most_one_current old \<and> k \<in> dom (gold_salarie_dict old) \<longrightarrow>
            rowcount_salarie k old = 1) \<and>
         fst (main_salarie R ds d (get_conn db [])) = Inr ()"
proof -
  have n: "new = map (update_salarie k d) old"
    by (simp add: new_def old_def close_current_ok[OF assms(3)])
  have "fst (main_salarie R ds d (get_conn db [])) = Inr ()"
    using main_salarie_success[OF assms(1,2)] by simp
  then show ?thesis
    using rowcount_one[of "session c" k]
    by (simp add: n rows_changed_close rowcount_after_close close_current_ok[OF assms(3)]
        old_def)
qed

text \<open>
  Claim C5 as stated (a close that affects zero or several rows aborts the run) fails:
  with two current rows for \<open>S1\<close> and a changed snapshot row, the close of \<open>S1\<close> matches
  two rows and the run completes and commits.
\<close>

theorem close_must_affect_one_row_counterexample:
  "rowcount_salarie ''S1'' (salarie_histo corrupt_db) = 2 \<and>
   executed (snd (main_salarie example_runtime ''salarie'' (Date 2024 9 2)
     (get_conn corrupt_db []))) =
     [CloseSalarie ''S1'' (Date 2024 9 2), InsertSalarie example_version] \<and>
   fst (main_salarie example_runtime ''salarie'' (Date 2024 9 2) (get_conn corrupt_db [])) =
     Inr () \<and>
   committed (snd (main_salarie example_runtime ''salarie'' (Date 2024 9 2)
     (get_conn corrupt_db []))) =
     apply_stmt (InsertSalarie example_version)
       (apply_stmt (CloseSalarie ''S1'' (Date 2024 9 2)) corrupt_db)"
proof -
  have "rowcount_salarie ''S1'' (salarie_histo corrupt_db) = 2"
    by (simp add: rowcount_salarie_def corrupt_db_def)
  with main_salarie_success[OF iter_ok_example corrupt_batches] show ?thesis
    by (simp add: corrupt_planned del: apply_stmt.simps)
qed

theorem close_updates_every_current_row_witness:
  "iter_ok example_runtime \<and>
   success_batches ''salarie'' (Date 2024 9 2) (batch_run example_db) \<noteq> [] \<and>
   plan (get_conn example_db []) = [] \<and>
   at_most_one_current (salarie_histo (session (get_conn example_db []))) \<and>
   ''S2'' \<in> dom (gold_salarie_dict (salarie_histo (session (get_conn example_db [])))) \<and>
   rowcount_salarie ''S2'' (salarie_histo (session (get_conn example_db []))) = 1 \<and>
   fst (close_current ''S2'' (Date 2024 9 2) (get_conn example_db [])) = Inr () \<and>
   rowcount_salarie ''S2'' (salarie_histo (session (snd
     (close_current ''S2'' (Date 2024 9 2) (get_conn example_db []))))) = 0"
proof -
  have b: "success_batches ''salarie'' (Date 2024 9 2) (batch_run example_db) \<noteq> []"
    by (simp add: example_batches)
  have p: "plan (get_conn example_db []) = []" by (simp add: get_conn_def)
  have s: "session (get_conn example_db []) = example_db" by (simp add: get_conn_def)
  from close_updates_every_current_row[OF iter_ok_example b p, where k = "''S2''"]
  have "rowcount_salarie ''S2'' (salarie_histo example_db) = 1 \<and>
    fst (close_current ''S2'' (Date 2024 9 2) (get_conn example_db [])) = Inr () \<and>
    rowcount_salarie ''S2'' (salarie_histo (session (snd
      (close_current ''S2'' (Date 2024 9 2) (get_conn example_db []))))) = 0"
    using example_I1 example_gold_S2 unfolding s by blast
  then show ?thesis
    using iter_ok_example b p example_I1 example_gold_S2 unfolding s by blast
qed

text \<open>
  Claim C7, as amended. \<open>md5_hash\<close> is the digest of the canonical string: the renderings
  of the values joined by \<open>||\<close>. Values with the same renderings give the same
  fingerprint; \<open>None\<close> and the empty string are one such case. Two lists of the same
  length whose renderings contain no \<open>|\<close> and differ somewhere (an attribute or the
  deletion flag) give different fingerprints, unless the digest itself collides on the
  two canonical strings.
\<close>

theorem fingerprint_canonical:
  "md5_hash R vs = md5_hexdigest R (join ''||'' (map (canonical R) vs)) \<and>
   canonical R PNone = canonical R (PStr []) \<and>
   (map (canonical R) vs = map (canonical R) ws \<longrightarrow> md5_hash R vs = md5_hash R ws) \<and>
   (length vs = length ws \<and>
    (\<forall>v \<in> set vs \<union> set ws. bar_free (canonical R v)) \<and>
    \<not> collision R (join ''||'' (map (canonical R) vs)) (join ''||'' (map (canonical R) ws)) \<and>
    map (canonical R) vs \<noteq> map (canonical R) ws \<longrightarrow>
    md5_hash R vs \<noteq> md5_hash R ws)"
proof -
  have "md5_hash R vs \<noteq> md5_hash R ws"
    if l: "length vs = length ws"
      and b: "\<forall>v \<in> set vs \<union> set ws. bar_free (canonical R v)"
      and c: "\<not> collision R (join ''||'' (map (canonical R) vs))
                (join ''||'' (map (canonical R) ws))"
      and n: "map (canonical R) vs \<noteq> map (canonical R) ws"
  proof
    assume "md5_hash R vs = md5_hash R ws"
    with c have "join ''||'' (map (canonical R) vs) = join ''||'' (map (canonical R) ws)"
      by (auto simp: md5_hash_def collision_def)
    then have "map (canonical R) vs = map (canonical R) ws"
      using l b by (intro join_inj) auto
    with n show False by simp
  qed
  then show ?thesis
    by (auto simp: md5_hash_def canonical_def)
qed

text \<open>
  Claim C7 as stated (the digests differ whenever an attribute value differs, null versus
  empty string apart) fails where a value contains the separator: \<open>nom = a||b, prenom = c\<close>
  and \<open>nom = a, prenom = b||c\<close> have one canonical string, hence one fingerprint under
  every digest function.
\<close>

theorem fingerprint_sensitivity_counterexample:
  "[PStr ''111'', PStr ''a||b'', PStr ''c'', PBool False] \<noteq>
     [PStr ''111'', PStr ''a'', PStr ''b||c'', PBool False] \<and>
   map (\<lambda>v. if v = PNone then PStr [] else v)
     [PStr ''111'', PStr ''a||b'', PStr ''c'', PBool False] \<noteq>
   map (\<lambda>v. if v = PNone then PStr [] else v)
     [PStr ''111'', PStr ''a'', PStr ''b||c'', PBool False] \<and>
   md5_hash example_runtime [PStr ''111'', PStr ''a||b'', PStr ''c'', PBool False] =
     md5_hash example_runtime [PStr ''111'', PStr ''a'', PStr ''b||c'', PBool False] \<and>
   (\<forall>R. md5_hash R [PStr ''111'', PStr ''a||b'', PStr ''c'', PBool False] =
        md5_hash R [PStr ''111'', PStr ''a'', PStr ''b||c'', PBool False])"
  by (simp add: md5_hash_def canonical_def)

theorem fingerprint_canonical_witness:
  "length [PStr ''111'', PStr ''Durand'', PStr ''Anne'', PBool False] =
     length [PStr ''111'', PStr ''Durand'', PStr ''Anne'', PBool True] \<and>
   list_all (\<lambda>v. bar_free (canonical example_runtime v))
     ([PStr ''111'', PStr ''Durand'', PStr ''Anne'', PBool False] @
      [PStr ''111'', PStr ''Durand'', PStr ''Anne'', PBool True]) \<and>
   \<not> collision example_runtime ''111||Durand||Anne||False'' ''111||Durand||Anne||True'' \<and>
   md5_hash example_runtime [PStr ''111'', PStr ''Durand'', PStr ''Anne'', PBool False] \<noteq>
     md5_hash example_runtime [PStr ''111'', PStr ''Durand'', PStr ''Anne'', PBool True] \<and>
   map (canonical example_runtime) [PStr ''111'', PNone, PStr ''Anne'', PBool False] =
     map (canonical example_runtime) [PStr ''111'', PStr [], PStr ''Anne'', PBool False] \<and>
   md5_hash example_runtime [PStr ''111'', PNone, PStr ''Anne'', PBool False] =
     md5_hash example_runtime [PStr ''111'', PStr [], PStr ''Anne'', PBool False]"
proof -
  let ?vs = "[PStr ''111'', PStr ''Durand'', PStr ''Anne'', PBool False]"
  let ?ws = "[PStr ''111'', PStr ''Durand'', PStr ''Anne'', PBool True]"
  have h1: "length ?vs = length ?ws" by simp
  have h2: "\<forall>v \<in> set ?vs \<union> set ?ws. bar_free (canonical example_runtime v)"
    by (simp add: bar_free_def canonical_def)
  have h3: "\<not> collision example_runtime (join ''||'' (map (canonical example_runtime) ?vs))
              (join ''||'' (map (canonical example_runtime) ?ws))"
    by (simp add: collision_def example_runtime_def)
  have h4: "map (canonical example_runtime) ?vs \<noteq> map (canonical example_runtime) ?ws"
    by (simp add: canonical_def)
  have a: "md5_hash example_runtime ?vs \<noteq> md5_hash example_runtime ?ws"
    using fingerprint_canonical[of example_runtime ?vs ?ws] h1 h2 h3 h4 by blast
  have h5: "map (canonical example_runtime) [PStr ''111'', PNone, PStr ''Anne'', PBool False] =
     map (canonical example_runtime) [PStr ''111'', PStr [], PStr ''Anne'', PBool False]"
    by (simp add: canonical_def)
  have b: "md5_hash example_runtime [PStr ''111'', PNone, PStr ''Anne'', PBool False] =
     md5_hash example_runtime [PStr ''111'', PStr [], PStr ''Anne'', PBool False]"
    using fingerprint_canonical[of example_runtime
        "[PStr ''111'', PNone, PStr ''Anne'', PBool False]"
        "[PStr ''111'', PStr [], PStr ''Anne'', PBool False]"] h5 by blast
  have c: "\<not> collision example_runtime ''111||Durand||Anne||False'' ''111||Durand||Anne||True''"
    by (simp add: collision_def example_runtime_def)
  have d: "list_all (\<lambda>v. bar_free (canonical example_runtime v)) (?vs @ ?ws)"
    by (simp add: bar_free_def canonical_def)
  from h1 d c a h5 b show ?thesis by blast
qed

text \<open>
  Claim C9 (the tombstone of a null amount). In the paiement reconciler and in the
  enriched demande_avance reconciler a first run inserts, from a snapshot row whose amount
  is \<open>NULL\<close>, a current non-deleted version with a null amount. When the key then leaves
  the snapshot, the next run closes the version, raises \<open>TypeError\<close> at \<open>float(None)\<close>
  while it builds the tombstone, and is rolled back: the history is as before, without a
  tombstone.
\<close>

theorem tombstone_partial_on_null_amount:
  fixes R
  assumes "iter_ok R"
  defines "p1 \<equiv> main_paiement R ''paiement'' (Date 2024 9 2) (get_conn null_amount_db [])"
  defines "p2 \<equiv> main_paiement R ''paiement'' (Date 2024 9 10)
                  (get_conn ((committed (snd p1))\<lparr>silver_paiement := []\<rparr>) [])"
  defines "d1 \<equiv> main_demande R ''demande_avance'' (Date 2024 9 2) (get_conn null_amount_db [])"
  defines "d2 \<equiv> main_demande R ''demande_avance'' (Date 2024 9 10)
                  (get_conn ((committed (snd d1))\<lparr>silver_demande_avance := []\<rparr>) [])"
  shows "fst p1 = Inr () \<and>
         paiement_histo (committed (snd p1)) = [null_paiement R] \<and>
         ph_montant_paye (null_paiement R) = None \<and>
         ph_is_current (null_paiement R) \<and> \<not> ph_is_deleted (null_paiement R) \<and>
         fst p2 = Inl TypeError \<and>
         executed (snd p2) = [ClosePaiement ''P1'' (Date 2024 9 10)] \<and>
         paiement_histo (committed (snd p2)) = [null_paiement R] \<and>
         session (snd p2) = committed (snd p2) \<and>
         fst d1 = Inr () \<and>
         demande_avance_histo (committed (snd d1)) = [null_demande R] \<and>
         dh_montant_demande (null_demande R) = None \<and>
         dh_is_current (null_demande R) \<and> \<not> dh_is_deleted (null_demande R) \<and>
         fst d2 = Inl TypeError \<and>
         executed (snd d2) = [CloseDemande ''D1'' (Date 2024 9 10)] \<and>
         demande_avance_histo (committed (snd d2)) = [null_demande R] \<and>
         session (snd d2) = committed (snd d2)"
proof -
  have p1: "p1 = (Inr (),
            \<lparr>committed = null_amount_db\<lparr>paiement_histo := [null_paiement R]\<rparr>,
             session = null_amount_db\<lparr>paiement_histo := [null_paiement R]\<rparr>,
             plan = [], executed = [InsertPaiement (null_paiement R)]\<rparr>)"
    unfolding p1_def by (rule paiement_first_run[OF assms(1)])
  have p2: "p2 = (Inl TypeError,
            \<lparr>committed = null_amount_db\<lparr>paiement_histo := [null_paiement R],
                                        silver_paiement := []\<rparr>,
             session = null_amount_db\<lparr>paiement_histo := [null_paiement R],
                                      silver_paiement := []\<rparr>,
             plan = [], executed = [ClosePaiement ''P1'' (Date 2024 9 10)]\<rparr>)"
    unfolding p2_def p1 using paiement_second_run[OF assms(1)] by simp
  have d1: "d1 = (Inr (),
            \<lparr>committed = null_amount_db\<lparr>demande_avance_histo := [null_demande R]\<rparr>,
             session = null_amount_db\<lparr>demande_avance_histo := [null_demande R]\<rparr>,
             plan = [], executed = [InsertDemande (null_demande R)]\<rparr>)"
    unfolding d1_def by (rule demande_first_run[OF assms(1)])
  have d2: "d2 = (Inl TypeError,
            \<lparr>committed = null_amount_db\<lparr>demande_avance_histo := [null_demande R],
                                        silver_demande_avance := []\<rparr>,
             session = null_amount_db\<lparr>demande_avance_histo := [null_demande R],
                                      silver_demande_avance := []\<rparr>,
             plan = [], executed = [CloseDemande ''D1'' (Date 2024 9 10)]\<rparr>)"
    unfolding d2_def d1 using demande_second_run[OF assms(1)] by simp
  show ?thesis
    unfolding p1 p2 d1 d2 by (simp add: null_paiement_def null_demande_def)
qed

theorem tombstone_partial_on_null_amount_witness:
  "iter_ok example_runtime \<and>
   fst (main_paiement example_runtime ''paiement'' (Date 2024 9 10)
     (get_conn ((committed (snd (main_paiement example_runtime ''paiement'' (Date 2024 9 2)
        (get_conn null_amount_db []))))\<lparr>silver_paiement := []\<rparr>) [])) = Inl TypeError \<and>
   fst (main_demande example_runtime ''demande_avance'' (Date 2024 9 10)
     (get_conn ((committed (snd (main_demande example_runtime ''demande_avance''
        (Date 2024 9 2) (get_conn null_amount_db []))))\<lparr>silver_demande_avance := []\<rparr>) [])) =
     Inl TypeError"
  using tombstone_partial_on_null_amount[OF iter_ok_example] iter_ok_example
  by simp

text \<open>
  Claim C2 (pass B, tombstone), on the paiement reconciler, at a key of the current
  versions that is absent from the snapshot and whose version is not deleted and has a null
  \<open>montant_paye\<close>: the run executes the close, then fails with \<open>TypeError\<close>; no tombstone
  is inserted and nothing is committed. (On the salarie reconciler the classification of
  the claim holds: \<open>tombstone_classification_salarie\<close>.)
\<close>

theorem paiement_tombstone_not_written:
  fixes R
  assumes "iter_ok R"
  defines "db \<equiv> vanished_paiement_db R"
  defines "res \<equiv> main_paiement R ''paiement'' (Date 2024 9 10) (get_conn db [])"
  shows "gold_paiement_dict (paiement_histo db) ''P1'' =
           Some \<lparr>pc_ref_salarie = Some ''S1'', pc_montant_paye = None,
                 pc_rib_salarie = Some ''FR76'', pc_date_paiement = None,
                 pc_ref_demande_avance = Some ''D9'',
                 pc_record_hash = md5_hexdigest R ''S1||||FR76||||D9||False'',
                 pc_is_deleted = False\<rparr> \<and>
         silver_paiement_dict (silver_paiement db) ''P1'' = None \<and>
         fst res = Inl TypeError \<and>
         executed (snd res) = [ClosePaiement ''P1'' (Date 2024 9 10)] \<and>
         committed (snd res) = db \<and>
         paiement_histo (committed (snd res)) = [null_paiement R]"
proof -
  have "res = (Inl TypeError,
            \<lparr>committed = db, session = db, plan = [],
             executed = [ClosePaiement ''P1'' (Date 2024 9 10)]\<rparr>)"
    unfolding res_def db_def vanished_paiement_db_def
    by (rule paiement_second_run[OF assms(1)])
  then show ?thesis
    by (simp add: db_def vanished_paiement_db_def null_amount_db_def null_paiement_def
        gold_paiement_dict_def silver_paiement_dict_def)
qed

theorem paiement_tombstone_not_written_witness:
  "iter_ok example_runtime \<and>
   fst (main_paiement example_runtime ''paiement'' (Date 2024 9 10)
          (get_conn (vanished_paiement_db example_runtime) [])) = Inl TypeError \<and>
   executed (snd (main_paiement example_runtime ''paiement'' (Date 2024 9 10)
          (get_conn (vanished_paiement_db example_runtime) []))) =
     [ClosePaiement ''P1'' (Date 2024 9 10)]"
  using paiement_tombstone_not_written[OF iter_ok_example] iter_ok_example
  by simp

end
